theory Spec2Isabelle
  imports Main
begin

section \<open>Go values shared by the packages\<close>

text \<open>
  A Go \<open>error\<close> value. \<open>AwsError code message\<close> is an error whose dynamic type
  implements \<open>awserr.Error\<close> (the type assertion \<open>err.(awserr.Error)\<close> succeeds on it and
  \<open>Code()\<close> returns \<open>code\<close>); \<open>GoError\<close> is what \<open>errorUtil.New\<close> builds;
  \<open>Wrap message cause\<close> is what \<open>errorUtil.Wrap\<close> and \<open>errorUtil.Wrapf\<close> build, and the
  type assertion fails on it, as it does on \<open>GoError\<close>.
\<close>

datatype error = AwsError string string | GoError string | Wrap string error

text \<open>
  What a Go call does: it returns its results, or it panics (a nil pointer is
  dereferenced).
\<close>

datatype 'a go = Return 'a | Panic

section \<open>pkg/providers/aws/provider\_postgressnapshot.go: the external lookup\<close>

text \<open>
  \<open>rds.DBSnapshot\<close>: the SDK holds every field behind a pointer, \<open>None\<close> is the nil
  pointer. The elements of \<open>DescribeDBSnapshotsOutput.DBSnapshots\<close> are pointers too.
\<close>

record DBSnapshot =
  DBSnapshotIdentifier :: "string option"
  DBSnapshot_Status :: "string option"

text \<open>
  The loop of \<open>findSnapshotInstance\<close> over \<open>listOutput.DBSnapshots\<close>: it stops at the
  first element whose identifier is the requested name; \<open>*c.DBSnapshotIdentifier\<close>
  panics on a nil element and on a nil identifier.
\<close>

fun findSnapshotLoop :: "DBSnapshot option list \<Rightarrow> string \<Rightarrow> DBSnapshot option go" where
  "findSnapshotLoop [] snapshotName = Return None"
| "findSnapshotLoop (None # cs) snapshotName = Panic"
| "findSnapshotLoop (Some c # cs) snapshotName =
     (case DBSnapshotIdentifier c of
        None \<Rightarrow> Panic
      | Some i \<Rightarrow> if i = snapshotName then Return (Some c) else findSnapshotLoop cs snapshotName)"

text \<open>
  \<open>findSnapshotInstance\<close>, from the outcome of the \<open>DescribeDBSnapshots\<close> call it
  makes: the pair returned is (snapshot, error).
\<close>

fun findSnapshotResult ::
  "error + DBSnapshot option list \<Rightarrow> string \<Rightarrow> (DBSnapshot option \<times> error option) go" where
  "findSnapshotResult (Inl (AwsError code m)) snapshotName =
     (if code = ''DBSnapshotNotFound'' then Return (None, None)
      else Return (None, Some (AwsError code m)))"
| "findSnapshotResult (Inl (GoError m)) snapshotName = Return (None, Some (GoError m))"
| "findSnapshotResult (Inl (Wrap m e)) snapshotName = Return (None, Some (Wrap m e))"
| "findSnapshotResult (Inr listOutput) snapshotName =
     (case findSnapshotLoop listOutput snapshotName of
        Panic \<Rightarrow> Panic
      | Return foundSnapshot \<Rightarrow> Return (foundSnapshot, None))"

section \<open>pkg/providers/aws/provider\_postgressnapshot.go: create and delete\<close>

text \<open>
  Modelled from the spec: the phase type \<open>croType.StatusPhase\<close> is declared outside the
  files at hand. Section 3 of the specification lists its values; the source names
  \<open>PhaseInProgress\<close>, \<open>PhaseDeleteInProgress\<close>, \<open>PhaseComplete\<close> and \<open>PhaseFailed\<close>.
\<close>

datatype StatusPhase =
  PhasePending | PhaseInProgress | PhaseComplete | PhaseFailed | PhaseDeleteInProgress
  | PhaseDeleted

text \<open>The fields of \<open>metav1.ObjectMeta\<close> that the source reads or writes.\<close>

record ObjectMeta =
  Name :: string
  Namespace :: string
  CreationTimestamp :: int
  DeletionTimestamp :: "int option"
  Finalizers :: "string list"

record PostgresSnapshotStatus =
  SnapshotID :: string

record PostgresSnapshot =
  snapshot_ObjectMeta :: ObjectMeta
  snapshot_Status :: PostgresSnapshotStatus

record PostgresSpec =
  postgres_Tier :: string

record PostgresStatus =
  postgres_Phase :: StatusPhase

record Postgres =
  postgres_ObjectMeta :: ObjectMeta
  postgres_Spec :: PostgresSpec
  postgres_Status :: PostgresStatus

record PostgresSnapshotInstance =
  instance_Name :: string

text \<open>
  Every call that leaves the process, in the order made. The list is bookkeeping of the
  model: each call below appends its entry, nothing reads it.
\<close>

datatype call =
  DescribeDBSnapshotsCall string
  | CreateDBSnapshotCall string string
  | DeleteDBSnapshotCall "string option"
  | ClientUpdateCall PostgresSnapshot
  | ClientStatusUpdateCall PostgresSnapshot

text \<open>
  The state outside the process: the cluster's store behind \<open>client.Client\<close>, the
  service behind \<open>rdsiface.RDSAPI\<close>, and the calls made so far.
\<close>

record ('k, 'r) world =
  k8s :: 'k
  aws :: 'r
  calls :: "call list"

text \<open>
  What \<open>PostgresSnapshotProvider\<close> depends on. \<open>rdsiface.RDSAPI\<close> and
  \<open>client.Client\<close> are interfaces, so each method is a function of the state it acts
  on, returning its outcome and the new state; the output structs of
  \<open>CreateDBSnapshot\<close> and \<open>DeleteDBSnapshot\<close> are not used by the source beyond a log
  line. \<open>BuildTimestampedInfraNameFromObjectCreation\<close>, \<open>BuildInfraNameFromObject\<close> and
  \<open>DefaultAwsIdentifierLength\<close> are declared outside the files at hand and are taken as
  parameters; section 4.6 of the specification has the name derived deterministically from
  the object, so they are functions of the object's metadata.
\<close>

record ('k, 'r) PostgresSnapshotProvider =
  DescribeDBSnapshots :: "string \<Rightarrow> 'r \<Rightarrow> (error + DBSnapshot option list) \<times> 'r"
  CreateDBSnapshot :: "string \<Rightarrow> string \<Rightarrow> 'r \<Rightarrow> error option \<times> 'r"
  DeleteDBSnapshot :: "string option \<Rightarrow> 'r \<Rightarrow> error option \<times> 'r"
  client_Update :: "PostgresSnapshot \<Rightarrow> 'k \<Rightarrow> error option \<times> 'k"
  client_Status_Update :: "PostgresSnapshot \<Rightarrow> 'k \<Rightarrow> error option \<times> 'k"
  BuildTimestampedInfraNameFromObjectCreation :: "ObjectMeta \<Rightarrow> nat \<Rightarrow> error + string"
  BuildInfraNameFromObject :: "ObjectMeta \<Rightarrow> nat \<Rightarrow> error + string"
  DefaultAwsIdentifierLength :: nat

definition DefaultFinalizer :: string where
  "DefaultFinalizer = ''finalizers.aws.cloud-resources-operator.integreatly.org''"

text \<open>
  Modelled from the spec: \<open>resources.RemoveFinalizer\<close> is declared outside the files at
  hand. Section 3 has the finalizer as a token attached to the record; removing it leaves
  the other tokens in place.
\<close>

definition RemoveFinalizer :: "ObjectMeta \<Rightarrow> string \<Rightarrow> ObjectMeta" where
  "RemoveFinalizer om finalizer = om\<lparr>Finalizers := filter (\<lambda>f. f \<noteq> finalizer) (Finalizers om)\<rparr>"

definition rdsDescribe ::
  "('k, 'r) PostgresSnapshotProvider \<Rightarrow> string \<Rightarrow> ('k, 'r) world
   \<Rightarrow> (error + DBSnapshot option list) \<times> ('k, 'r) world" where
  "rdsDescribe p snapshotName st =
     (case DescribeDBSnapshots p snapshotName (aws st) of
        (out, r') \<Rightarrow> (out, st\<lparr>aws := r', calls := calls st @ [DescribeDBSnapshotsCall snapshotName]\<rparr>))"

definition rdsCreate ::
  "('k, 'r) PostgresSnapshotProvider \<Rightarrow> string \<Rightarrow> string \<Rightarrow> ('k, 'r) world
   \<Rightarrow> error option \<times> ('k, 'r) world" where
  "rdsCreate p instanceName snapshotName st =
     (case CreateDBSnapshot p instanceName snapshotName (aws st) of
        (err, r') \<Rightarrow>
          (err, st\<lparr>aws := r', calls := calls st @ [CreateDBSnapshotCall instanceName snapshotName]\<rparr>))"

definition rdsDelete ::
  "('k, 'r) PostgresSnapshotProvider \<Rightarrow> string option \<Rightarrow> ('k, 'r) world
   \<Rightarrow> error option \<times> ('k, 'r) world" where
  "rdsDelete p identifier st =
     (case DeleteDBSnapshot p identifier (aws st) of
        (err, r') \<Rightarrow> (err, st\<lparr>aws := r', calls := calls st @ [DeleteDBSnapshotCall identifier]\<rparr>))"

definition clientUpdate ::
  "('k, 'r) PostgresSnapshotProvider \<Rightarrow> PostgresSnapshot \<Rightarrow> ('k, 'r) world
   \<Rightarrow> error option \<times> ('k, 'r) world" where
  "clientUpdate p snapshot st =
     (case client_Update p snapshot (k8s st) of
        (err, k') \<Rightarrow> (err, st\<lparr>k8s := k', calls := calls st @ [ClientUpdateCall snapshot]\<rparr>))"

definition clientStatusUpdate ::
  "('k, 'r) PostgresSnapshotProvider \<Rightarrow> PostgresSnapshot \<Rightarrow> ('k, 'r) world
   \<Rightarrow> error option \<times> ('k, 'r) world" where
  "clientStatusUpdate p snapshot st =
     (case client_Status_Update p snapshot (k8s st) of
        (err, k') \<Rightarrow> (err, st\<lparr>k8s := k', calls := calls st @ [ClientStatusUpdateCall snapshot]\<rparr>))"

definition findSnapshotInstance ::
  "('k, 'r) PostgresSnapshotProvider \<Rightarrow> string \<Rightarrow> ('k, 'r) world
   \<Rightarrow> (DBSnapshot option \<times> error option) go \<times> ('k, 'r) world" where
  "findSnapshotInstance p snapshotName st =
     (case rdsDescribe p snapshotName st of
        (out, st') \<Rightarrow> (findSnapshotResult out snapshotName, st'))"

text \<open>
  Lines 146 to 156 of \<open>createPostgresSnapshot\<close>: what it returns for the snapshot
  the lookup found. \<open>*foundSnapshot.Status\<close> and
  \<open>*foundSnapshot.DBSnapshotIdentifier\<close> panic on a nil pointer.
\<close>

definition reportFoundSnapshot ::
  "DBSnapshot \<Rightarrow> (PostgresSnapshotInstance option \<times> string \<times> error option) go" where
  "reportFoundSnapshot foundSnapshot =
     (case DBSnapshot_Status foundSnapshot of
        None \<Rightarrow> Panic
      | Some status \<Rightarrow>
          if status = ''available''
          then (case DBSnapshotIdentifier foundSnapshot of
                  None \<Rightarrow> Panic
                | Some i \<Rightarrow> Return (Some \<lparr>instance_Name = i\<rparr>, ''snapshot created'', None))
          else Return (None, ''current snapshot status : '' @ status, None))"

text \<open>
  What \<open>createPostgresSnapshot\<close> does once the lookup has returned: lines 116 to 156.
\<close>

definition createAfterLookup ::
  "('k, 'r) PostgresSnapshotProvider \<Rightarrow> Postgres \<Rightarrow> string \<Rightarrow> string
   \<Rightarrow> (DBSnapshot option \<times> error option) go \<Rightarrow> ('k, 'r) world
   \<Rightarrow> (PostgresSnapshotInstance option \<times> string \<times> error option) go \<times> ('k, 'r) world" where
  "createAfterLookup p postgres instanceName snapshotName looked st =
     (case looked of
        Panic \<Rightarrow> (Panic, st)
      | Return (foundSnapshot, Some err) \<Rightarrow>
          (Return (None, ''failed to describe snaphots in AWS'',
                   Some (Wrap ''failed to describe snaphots in AWS'' err)), st)
      | Return (None, None) \<Rightarrow>
          if postgres_Phase (postgres_Status postgres) = PhaseInProgress
          then (Return (None, ''waiting for postgres instance to be available'', None), st)
          else if postgres_Phase (postgres_Status postgres) = PhaseDeleteInProgress
          then (Return (None, ''cannot create snapshot when instance deletion is in progress'',
                        Some (GoError ''cannot create snapshot when instance deletion is in progress'')), st)
          else (case rdsCreate p instanceName snapshotName st of
                  (Some err, st') \<Rightarrow>
                    (Return (None, ''error creating rds snapshot'',
                             Some (Wrap ''error creating rds snapshot'' err)), st')
                | (None, st') \<Rightarrow> (Return (None, ''snapshot started'', None), st'))
      | Return (Some foundSnapshot, None) \<Rightarrow> (reportFoundSnapshot foundSnapshot, st))"

text \<open>
  \<open>createPostgresSnapshot\<close>. The snapshot is passed by pointer, so the record as the
  call leaves it is returned with the results.
\<close>

definition createPostgresSnapshot ::
  "('k, 'r) PostgresSnapshotProvider \<Rightarrow> PostgresSnapshot \<Rightarrow> Postgres \<Rightarrow> ('k, 'r) world
   \<Rightarrow> (PostgresSnapshotInstance option \<times> string \<times> error option) go \<times> PostgresSnapshot
      \<times> ('k, 'r) world" where
  "createPostgresSnapshot p snapshot postgres st =
     (case BuildTimestampedInfraNameFromObjectCreation p (snapshot_ObjectMeta snapshot)
             (DefaultAwsIdentifierLength p) of
        Inl err \<Rightarrow>
          (Return (None, ''failed to generate snapshot name'',
                   Some (Wrap ''failed to generate snapshot name'' err)), snapshot, st)
      | Inr snapshotName \<Rightarrow>
          (let snapshot' = snapshot\<lparr>snapshot_Status := (snapshot_Status snapshot)\<lparr>SnapshotID := snapshotName\<rparr>\<rparr>
           in case clientStatusUpdate p snapshot' st of
                (Some err, st1) \<Rightarrow>
                  (let errMsg = ''failed to update instance '' @ Name (snapshot_ObjectMeta snapshot')
                                @ '' in namespace '' @ Namespace (snapshot_ObjectMeta snapshot')
                   in (Return (None, errMsg, Some (Wrap errMsg err)), snapshot', st1))
              | (None, st1) \<Rightarrow>
                  (case BuildInfraNameFromObject p (postgres_ObjectMeta postgres)
                          (DefaultAwsIdentifierLength p) of
                     Inl err \<Rightarrow>
                       (Return (None, ''failed to get cluster name'',
                                Some (Wrap ''failed to get cluster name'' err)), snapshot', st1)
                   | Inr instanceName \<Rightarrow>
                       (case findSnapshotInstance p snapshotName st1 of
                          (looked, st2) \<Rightarrow>
                            (case createAfterLookup p postgres instanceName snapshotName looked st2 of
                               (res, st3) \<Rightarrow> (res, snapshot', st3))))))"

text \<open>
  \<open>deletePostgresSnapshot\<close>. \<open>RemoveFinalizer\<close> changes the record in memory;
  \<open>p.client.Update\<close> is the call that stores it.
\<close>

definition deletePostgresSnapshot ::
  "('k, 'r) PostgresSnapshotProvider \<Rightarrow> PostgresSnapshot \<Rightarrow> Postgres \<Rightarrow> ('k, 'r) world
   \<Rightarrow> (string \<times> error option) go \<times> PostgresSnapshot \<times> ('k, 'r) world" where
  "deletePostgresSnapshot p snapshot postgres st =
     (let snapshotName = SnapshotID (snapshot_Status snapshot)
      in case findSnapshotInstance p snapshotName st of
           (Panic, st1) \<Rightarrow> (Panic, snapshot, st1)
         | (Return (foundSnapshot, Some err), st1) \<Rightarrow>
             (Return (''failed to describe snaphots in AWS'',
                      Some (Wrap ''failed to describe snaphots in AWS'' err)), snapshot, st1)
         | (Return (None, None), st1) \<Rightarrow>
             (let snapshot' = snapshot\<lparr>snapshot_ObjectMeta :=
                                RemoveFinalizer (snapshot_ObjectMeta snapshot) DefaultFinalizer\<rparr>
              in case clientUpdate p snapshot' st1 of
                   (Some err, st2) \<Rightarrow>
                     (Return (''failed to update instance as part of finalizer reconcile'',
                              Some (Wrap ''failed to update instance as part of finalizer reconcile'' err)),
                      snapshot', st2)
                 | (None, st2) \<Rightarrow> (Return (''snapshot deleted'', None), snapshot', st2))
         | (Return (Some foundSnapshot, None), st1) \<Rightarrow>
             (case rdsDelete p (DBSnapshotIdentifier foundSnapshot) st1 of
                (Some err, st2) \<Rightarrow>
                  (let errMsg = ''failed to delete snapshot '' @ snapshotName @ '' in aws''
                   in (Return (errMsg, Some (Wrap errMsg err)), snapshot, st2))
              | (None, st2) \<Rightarrow> (Return (''snapshot deletion started'', None), snapshot, st2)))"

section \<open>pkg/providers/aws/config.go\<close>

record StrategyConfig =
  Region :: string
  RawStrategy :: string

text \<open>\<open>v1.ConfigMap\<close>: the source reads its \<open>Data\<close>, a Go map from string to string.\<close>

record ConfigMap =
  Data :: "string \<rightharpoonup> string"

text \<open>
  \<open>ConfigMapConfigManager\<close>. The \<open>client\<close> field is the interface \<open>client.Client\<close>;
  the one method the manager calls is \<open>Get\<close> of a config map by name and namespace, in
  the cluster state \<open>'k\<close>.
\<close>

record 'k ConfigMapConfigManager =
  configMapName :: string
  configMapNamespace :: string
  client_Get :: "string \<times> string \<Rightarrow> 'k \<Rightarrow> error + ConfigMap"

text \<open>
  What config.go takes from outside the files at hand: the resource type constants of
  package \<open>providers\<close>, and \<open>json.Unmarshal\<close> into a
  \<open>map[string]*StrategyConfig\<close> (an error, or the decoded map, where a key that is
  missing or holds \<open>null\<close> gives the nil pointer).
\<close>

record configImports =
  BlobStorageResourceType :: string
  SMTPCredentialResourceType :: string
  json_Unmarshal :: "string \<Rightarrow> error + (string \<rightharpoonup> StrategyConfig)"

text \<open>
  \<open>getTierStrategyForProvider\<close>: the pair returned is (strategy, error). Indexing a Go
  map of strings at a missing key gives the empty string.
\<close>

definition getTierStrategyForProvider ::
  "configImports \<Rightarrow> 'k ConfigMapConfigManager \<Rightarrow> 'k \<Rightarrow> string \<Rightarrow> string
   \<Rightarrow> StrategyConfig option \<times> error option" where
  "getTierStrategyForProvider im m k resourceType tier =
     (case client_Get m (configMapName m, configMapNamespace m) k of
        Inl err \<Rightarrow>
          (None, Some (Wrap (''failed to get aws strategy config map '' @ configMapName m
                             @ '' in namespace '' @ configMapNamespace m) err))
      | Inr cm \<Rightarrow>
          (let rawStrategyMapping =
                 (case Data cm (BlobStorageResourceType im) of None \<Rightarrow> '''' | Some v \<Rightarrow> v)
           in if rawStrategyMapping = ''''
              then (None, Some (GoError (''aws strategy for resource type ''
                                         @ BlobStorageResourceType im @ '' is not defined'')))
              else (case json_Unmarshal im rawStrategyMapping of
                      Inl err \<Rightarrow>
                        (None, Some (Wrap (''failed to unmarshal strategy mapping for resource type ''
                                           @ BlobStorageResourceType im) err))
                    | Inr strategyMapping \<Rightarrow> (strategyMapping tier, None))))"

definition ReadBlobStorageStrategy ::
  "configImports \<Rightarrow> 'k ConfigMapConfigManager \<Rightarrow> 'k \<Rightarrow> string
   \<Rightarrow> StrategyConfig option \<times> error option" where
  "ReadBlobStorageStrategy im m k tier =
     (case getTierStrategyForProvider im m k (BlobStorageResourceType im) tier of
        (stratCfg, Some err) \<Rightarrow>
          (None, Some (Wrap (''failed to get tier to strategy mapping for resource type ''
                             @ BlobStorageResourceType im) err))
      | (stratCfg, None) \<Rightarrow> (stratCfg, None))"

definition ReadSMTPCredentialSetStrategy ::
  "configImports \<Rightarrow> 'k ConfigMapConfigManager \<Rightarrow> 'k \<Rightarrow> string
   \<Rightarrow> StrategyConfig option \<times> error option" where
  "ReadSMTPCredentialSetStrategy im m k tier =
     (case getTierStrategyForProvider im m k (SMTPCredentialResourceType im) tier of
        (stratCfg, Some err) \<Rightarrow>
          (None, Some (Wrap (''failed to get tier to strategy mapping for resource type ''
                             @ BlobStorageResourceType im) err))
      | (stratCfg, None) \<Rightarrow> (stratCfg, None))"

section \<open>pkg/providers/aws/provider\_postgressnapshot.go: the session\<close>

record AWSCredentials =
  AccessKeyID :: string
  SecretAccessKey :: string

record awsConfig =
  config_Region :: string
  config_AccessKeyID :: string
  config_SecretAccessKey :: string

text \<open>
  What \<open>getAwsSession\<close> calls. \<open>ConfigManager\<close> and \<open>CredentialManager\<close> are interface
  fields of the provider; \<open>ReadStorageStrategy\<close>, \<open>providers.PostgresResourceType\<close> and
  \<open>GetRegionFromStrategyOrDefault\<close> are declared outside the files at hand, and
  \<open>session.NewSession\<close> is the SDK's; all are taken as parameters. A call that takes the
  strategy pointer may dereference it, so its outcome may be a panic.
\<close>

record ('k, 's) sessionImports =
  ReadStorageStrategy :: "string \<Rightarrow> string \<Rightarrow> 'k \<Rightarrow> StrategyConfig option \<times> error option"
  PostgresResourceType :: string
  GetRegionFromStrategyOrDefault :: "StrategyConfig option \<Rightarrow> 'k \<Rightarrow> (string \<times> error option) go"
  ReconcileProviderCredentials :: "string \<Rightarrow> 'k \<Rightarrow> (AWSCredentials option \<times> error option) \<times> 'k"
  NewSession :: "awsConfig \<Rightarrow> error + 's"

text \<open>
  \<open>getAwsSession\<close>: the pair returned is (session, error). \<open>stratCfg.Region\<close> and
  \<open>providerCreds.AccessKeyID\<close> panic on a nil pointer, \<open>session.Must\<close> panics on an
  error.
\<close>

definition getAwsSession ::
  "('k, 's) sessionImports \<Rightarrow> Postgres \<Rightarrow> 'k \<Rightarrow> ('s option \<times> error option) go \<times> 'k" where
  "getAwsSession im postgresCr k =
     (case ReadStorageStrategy im (PostgresResourceType im) (postgres_Tier (postgres_Spec postgresCr)) k of
        (stratCfg, Some err) \<Rightarrow> (Return (None, Some err), k)
      | (stratCfg, None) \<Rightarrow>
          (case GetRegionFromStrategyOrDefault im stratCfg k of
             Panic \<Rightarrow> (Panic, k)
           | Return (defRegion, Some err) \<Rightarrow> (Return (None, Some err), k)
           | Return (defRegion, None) \<Rightarrow>
               (case stratCfg of
                  None \<Rightarrow> (Panic, k)
                | Some cfg \<Rightarrow>
                    (let region = (if Region cfg = '''' then defRegion else Region cfg)
                     in case ReconcileProviderCredentials im (Namespace (postgres_ObjectMeta postgresCr)) k of
                          ((providerCreds, Some err), k') \<Rightarrow>
                            (Return (None, Some (Wrap ''failed to reconcile aws credentials'' err)), k')
                        | ((None, None), k') \<Rightarrow> (Panic, k')
                        | ((Some creds, None), k') \<Rightarrow>
                            (case NewSession im \<lparr>config_Region = region,
                                                  config_AccessKeyID = AccessKeyID creds,
                                                  config_SecretAccessKey = SecretAccessKey creds\<rparr> of
                               Inl err \<Rightarrow> (Panic, k')
                             | Inr sess \<Rightarrow> (Return (Some sess, None), k'))))))"

text \<open>
  Modelled from the spec: \<open>ReadStorageStrategy\<close> of the config-map manager is declared
  outside the files at hand. Section 4.1 has one resolver, \<open>resolve(resourceKind, tier)\<close>,
  for every kind; it is written here as its two siblings in config.go are, with the
  kind passed on to \<open>getTierStrategyForProvider\<close>.
\<close>

definition ConfigMap_ReadStorageStrategy ::
  "configImports \<Rightarrow> 'k ConfigMapConfigManager \<Rightarrow> string \<Rightarrow> string \<Rightarrow> 'k
   \<Rightarrow> StrategyConfig option \<times> error option" where
  "ConfigMap_ReadStorageStrategy im m rt tier k =
     (case getTierStrategyForProvider im m k rt tier of
        (stratCfg, Some err) \<Rightarrow>
          (None, Some (Wrap (''failed to get tier to strategy mapping for resource type '' @ rt) err))
      | (stratCfg, None) \<Rightarrow> (stratCfg, None))"

section \<open>pkg/controller/blobstorage/blobstorage\_controller.go\<close>

record SecretRef =
  secret_Name :: string
  secret_Namespace :: string

record BlobStorageSpec =
  spec_Type :: string
  spec_Tier :: string
  spec_SecretRef :: "SecretRef option"

record BlobStorageStatus =
  status_Phase :: StatusPhase
  status_Message :: string
  status_SecretRef :: "SecretRef option"
  status_Strategy :: string
  status_Provider :: string

record BlobStorage =
  blob_ObjectMeta :: ObjectMeta
  blob_Spec :: BlobStorageSpec
  blob_Status :: BlobStorageStatus

text \<open>\<open>providers.BlobStorageInstance\<close>, as far as used: \<open>DeploymentDetails.Data()\<close>.\<close>

record BlobStorageInstance =
  DeploymentDetails_Data :: "(string \<times> string) list"

record DeploymentStrategyMapping =
  strategy_BlobStorage :: string

text \<open>\<open>reconcile.Request\<close> and \<open>reconcile.Result\<close>; the duration is in seconds.\<close>

record Request =
  request_Namespace :: string
  request_Name :: string

record Result =
  Requeue :: bool
  RequeueAfter :: nat

text \<open>The calls of one reconciliation, in the order made (bookkeeping, as above).\<close>

datatype rcall =
  GetCall Request
  | GetStrategyMappingCall string string
  | DeleteStorageCall string BlobStorage
  | CreateStorageCall string BlobStorage
  | ReconcileResultSecretCall BlobStorage "(string \<times> string) list"
  | StatusUpdateCall BlobStorage

record 'w rworld =
  outside :: 'w
  rcalls :: "rcall list"

text \<open>
  The interface \<open>providers.BlobStorageProvider\<close>. The instance is passed by pointer, so
  create and delete return it as they leave it.
\<close>

record 'w BlobStorageProvider =
  GetName :: string
  SupportsStrategy :: "string \<Rightarrow> bool"
  CreateStorage :: "BlobStorage \<Rightarrow> 'w
                    \<Rightarrow> (BlobStorageInstance option \<times> string \<times> error option) \<times> BlobStorage \<times> 'w"
  DeleteStorage :: "BlobStorage \<Rightarrow> 'w \<Rightarrow> (string \<times> error option) \<times> BlobStorage \<times> 'w"

text \<open>
  \<open>ReconcileBlobStorage\<close> and what \<open>Reconcile\<close> takes from outside the files at hand:
  the methods of \<open>client.Client\<close> it calls, \<open>errors.IsNotFound\<close>,
  \<open>genericProvider.ReconcileResultSecret\<close>, the config manager's
  \<open>GetStrategyMappingForDeploymentType\<close> (built for the request's namespace; the pair
  returned is (mapping, error)) and \<open>resources.GetReconcileTime\<close>.
\<close>

record 'w ReconcileBlobStorage =
  reconciler_Get :: "Request \<Rightarrow> 'w \<Rightarrow> error + BlobStorage"
  errors_IsNotFound :: "error \<Rightarrow> bool"
  reconciler_Status_Update :: "BlobStorage \<Rightarrow> 'w \<Rightarrow> error option \<times> 'w"
  ReconcileResultSecret :: "BlobStorage \<Rightarrow> (string \<times> string) list \<Rightarrow> 'w \<Rightarrow> error option \<times> 'w"
  GetStrategyMappingForDeploymentType ::
    "string \<Rightarrow> string \<Rightarrow> 'w \<Rightarrow> DeploymentStrategyMapping option \<times> error option"
  GetReconcileTime :: nat
  providerList :: "'w BlobStorageProvider list"

definition statusUpdate ::
  "'w ReconcileBlobStorage \<Rightarrow> BlobStorage \<Rightarrow> 'w rworld \<Rightarrow> error option \<times> 'w rworld" where
  "statusUpdate r inst st =
     (case reconciler_Status_Update r inst (outside st) of
        (err, w') \<Rightarrow> (err, st\<lparr>outside := w', rcalls := rcalls st @ [StatusUpdateCall inst]\<rparr>))"

text \<open>
  Modelled from the spec: \<open>resources.UpdatePhase\<close> is declared outside the files at
  hand. Sections 4.3 and 5 have the engine set the phase and the message of the status
  and store the status with one conditional write, whose failure is the error returned.
\<close>

definition UpdatePhase ::
  "'w ReconcileBlobStorage \<Rightarrow> BlobStorage \<Rightarrow> StatusPhase \<Rightarrow> string \<Rightarrow> 'w rworld
   \<Rightarrow> error option \<times> BlobStorage \<times> 'w rworld" where
  "UpdatePhase r inst phase msg st =
     (let inst' = inst\<lparr>blob_Status := (blob_Status inst)\<lparr>status_Phase := phase, status_Message := msg\<rparr>\<rparr>
      in case statusUpdate r inst' st of (err, st') \<Rightarrow> (err, inst', st'))"

definition deleteStorage ::
  "'w BlobStorageProvider \<Rightarrow> BlobStorage \<Rightarrow> 'w rworld
   \<Rightarrow> (string \<times> error option) \<times> BlobStorage \<times> 'w rworld" where
  "deleteStorage p inst st =
     (case DeleteStorage p inst (outside st) of
        (res, inst', w') \<Rightarrow>
          (res, inst', st\<lparr>outside := w', rcalls := rcalls st @ [DeleteStorageCall (GetName p) inst]\<rparr>))"

definition createStorage ::
  "'w BlobStorageProvider \<Rightarrow> BlobStorage \<Rightarrow> 'w rworld
   \<Rightarrow> (BlobStorageInstance option \<times> string \<times> error option) \<times> BlobStorage \<times> 'w rworld" where
  "createStorage p inst st =
     (case CreateStorage p inst (outside st) of
        (res, inst', w') \<Rightarrow>
          (res, inst', st\<lparr>outside := w', rcalls := rcalls st @ [CreateStorageCall (GetName p) inst]\<rparr>))"

definition reconcileResultSecret ::
  "'w ReconcileBlobStorage \<Rightarrow> BlobStorage \<Rightarrow> (string \<times> string) list \<Rightarrow> 'w rworld
   \<Rightarrow> error option \<times> 'w rworld" where
  "reconcileResultSecret r inst d st =
     (case ReconcileResultSecret r inst d (outside st) of
        (err, w') \<Rightarrow>
          (err, st\<lparr>outside := w', rcalls := rcalls st @ [ReconcileResultSecretCall inst d]\<rparr>))"

definition emptyResult :: Result where
  "emptyResult = \<lparr>Requeue = False, RequeueAfter = 0\<rparr>"

definition requeueResult :: "'w ReconcileBlobStorage \<Rightarrow> Result" where
  "requeueResult r = \<lparr>Requeue = True, RequeueAfter = GetReconcileTime r\<rparr>"

definition emptySecretRef :: SecretRef where
  "emptySecretRef = \<lparr>secret_Name = '''', secret_Namespace = ''''\<rparr>"

text \<open>Lines 114 to 128: the deletion branch, for the provider that supports the strategy.\<close>

definition reconcileDelete ::
  "'w ReconcileBlobStorage \<Rightarrow> 'w BlobStorageProvider \<Rightarrow> BlobStorage \<Rightarrow> 'w rworld
   \<Rightarrow> (Result \<times> error option) go \<times> 'w rworld" where
  "reconcileDelete r p inst st =
     (case deleteStorage p inst st of
        ((msg, Some err), inst1, st1) \<Rightarrow>
          (case UpdatePhase r inst1 PhaseFailed msg st1 of
             (Some updateErr, inst2, st2) \<Rightarrow> (Return (emptyResult, Some updateErr), st2)
           | (None, inst2, st2) \<Rightarrow>
               (Return (emptyResult,
                        Some (Wrap ''failed to perform provider-specific storage deletion'' err)), st2))
      | ((msg, None), inst1, st1) \<Rightarrow>
          (case UpdatePhase r inst1 PhaseDeleteInProgress msg st1 of
             (Some err, inst2, st2) \<Rightarrow> (Return (emptyResult, Some err), st2)
           | (None, inst2, st2) \<Rightarrow> (Return (requeueResult r, None), st2)))"

text \<open>Lines 130 to 159: the create branch.\<close>

definition reconcileCreate ::
  "'w ReconcileBlobStorage \<Rightarrow> 'w BlobStorageProvider \<Rightarrow> DeploymentStrategyMapping
   \<Rightarrow> BlobStorage \<Rightarrow> 'w rworld \<Rightarrow> (Result \<times> error option) go \<times> 'w rworld" where
  "reconcileCreate r p stratMap inst st =
     (case createStorage p inst st of
        ((bsi, msg, Some err), inst1, st1) \<Rightarrow>
          (let inst2 = inst1\<lparr>blob_Status := (blob_Status inst1)\<lparr>status_SecretRef := Some emptySecretRef\<rparr>\<rparr>
           in case UpdatePhase r inst2 PhaseFailed msg st1 of
                (Some updateErr, inst3, st2) \<Rightarrow> (Return (emptyResult, Some updateErr), st2)
              | (None, inst3, st2) \<Rightarrow> (Return (emptyResult, Some err), st2))
      | ((None, msg, None), inst1, st1) \<Rightarrow>
          (let inst2 = inst1\<lparr>blob_Status := (blob_Status inst1)\<lparr>status_SecretRef := Some emptySecretRef\<rparr>\<rparr>
           in case UpdatePhase r inst2 PhaseInProgress msg st1 of
                (Some err, inst3, st2) \<Rightarrow> (Return (emptyResult, Some err), st2)
              | (None, inst3, st2) \<Rightarrow> (Return (requeueResult r, None), st2))
      | ((Some bsi, msg, None), inst1, st1) \<Rightarrow>
          (case reconcileResultSecret r inst1 (DeploymentDetails_Data bsi) st1 of
             (Some err, st2) \<Rightarrow> (Return (emptyResult, Some (Wrap ''failed to reconcile secret'' err)), st2)
           | (None, st2) \<Rightarrow>
               (let inst2 = inst1\<lparr>blob_Status := (blob_Status inst1)
                              \<lparr>status_Phase := PhaseComplete, status_Message := msg,
                               status_SecretRef := spec_SecretRef (blob_Spec inst1),
                               status_Strategy := strategy_BlobStorage stratMap,
                               status_Provider := GetName p\<rparr>\<rparr>
                in case statusUpdate r inst2 st2 of
                     (Some err, st3) \<Rightarrow>
                       (Return (emptyResult,
                                Some (Wrap (''failed to update instance '' @ Name (blob_ObjectMeta inst2)
                                            @ '' in namespace '' @ Namespace (blob_ObjectMeta inst2)) err)),
                        st3)
                   | (None, st3) \<Rightarrow> (Return (requeueResult r, None), st3))))"

text \<open>
  Lines 109 to 166: the loop over \<open>r.providerList\<close> and what follows it.
  \<open>stratMap.BlobStorage\<close> panics on a nil mapping.
\<close>

fun reconcileProviders ::
  "'w ReconcileBlobStorage \<Rightarrow> 'w BlobStorageProvider list \<Rightarrow> DeploymentStrategyMapping option
   \<Rightarrow> BlobStorage \<Rightarrow> 'w rworld \<Rightarrow> (Result \<times> error option) go \<times> 'w rworld" where
  "reconcileProviders r [] stratMap inst st =
     (case UpdatePhase r inst PhaseFailed ''unsupported deployment strategy'' st of
        (Some err, inst1, st1) \<Rightarrow> (Return (emptyResult, Some err), st1)
      | (None, inst1, st1) \<Rightarrow>
          (case stratMap of
             None \<Rightarrow> (Panic, st1)
           | Some sm \<Rightarrow>
               (Return (emptyResult,
                        Some (GoError (''unsupported deployment strategy '' @ strategy_BlobStorage sm))),
                st1)))"
| "reconcileProviders r (p # ps) stratMap inst st =
     (case stratMap of
        None \<Rightarrow> (Panic, st)
      | Some sm \<Rightarrow>
          if \<not> SupportsStrategy p (strategy_BlobStorage sm)
          then reconcileProviders r ps stratMap inst st
          else if DeletionTimestamp (blob_ObjectMeta inst) \<noteq> None
          then reconcileDelete r p inst st
          else reconcileCreate r p sm inst st)"

text \<open>
  \<open>Reconcile\<close>. \<open>r.client.Get\<close> and \<open>GetStrategyMappingForDeploymentType\<close> read the
  state outside and leave it as it is.
\<close>

definition Reconcile ::
  "'w ReconcileBlobStorage \<Rightarrow> Request \<Rightarrow> 'w rworld \<Rightarrow> (Result \<times> error option) go \<times> 'w rworld" where
  "Reconcile r request st =
     (let st1 = st\<lparr>rcalls := rcalls st @ [GetCall request]\<rparr>
      in case reconciler_Get r request (outside st) of
           Inl err \<Rightarrow>
             if errors_IsNotFound r err then (Return (emptyResult, None), st1)
             else (Return (emptyResult, Some err), st1)
         | Inr inst \<Rightarrow>
             (let st2 = st1\<lparr>rcalls := rcalls st1 @ [GetStrategyMappingCall (request_Namespace request)
                                                       (spec_Type (blob_Spec inst))]\<rparr>
              in case GetStrategyMappingForDeploymentType r (request_Namespace request)
                        (spec_Type (blob_Spec inst)) (outside st) of
                   (stratMap, Some err) \<Rightarrow>
                     (case UpdatePhase r inst PhaseFailed
                             ''failed to read deployment type config for deployment'' st2 of
                        (Some updateErr, inst1, st3) \<Rightarrow> (Return (emptyResult, Some updateErr), st3)
                      | (None, inst1, st3) \<Rightarrow>
                          (Return (emptyResult,
                                   Some (Wrap (''failed to read deployment type config for deployment ''
                                               @ spec_Type (blob_Spec inst)) err)), st3))
                 | (stratMap, None) \<Rightarrow> reconcileProviders r (providerList r) stratMap inst st2))"

section \<open>Example values\<close>

definition snapA :: DBSnapshot where
  "snapA = \<lparr>DBSnapshotIdentifier = Some ''cluster-ns-other-1'', DBSnapshot_Status = Some ''available''\<rparr>"

definition snapB :: DBSnapshot where
  "snapB = \<lparr>DBSnapshotIdentifier = Some ''cluster-ns-snap-1'', DBSnapshot_Status = Some ''creating''\<rparr>"

text \<open>
  A provider to run the operations on: the service keeps a list of snapshots, describes
  by exact identifier and answers \<open>DBSnapshotNotFound\<close> when there is none, creates
  in state \<open>creating\<close>, and deletes by identifier; the cluster's store keeps every
  record written to it.
\<close>

definition exampleDescribe :: "string \<Rightarrow> DBSnapshot list \<Rightarrow> (error + DBSnapshot option list) \<times> DBSnapshot list" where
  "exampleDescribe n r =
     (case filter (\<lambda>s. DBSnapshotIdentifier s = Some n) r of
        [] \<Rightarrow> (Inl (AwsError ''DBSnapshotNotFound'' ''snapshot not found''), r)
      | xs \<Rightarrow> (Inr (map Some xs), r))"

definition exampleCreate :: "string \<Rightarrow> string \<Rightarrow> DBSnapshot list \<Rightarrow> error option \<times> DBSnapshot list" where
  "exampleCreate i n r =
     (None, r @ [\<lparr>DBSnapshotIdentifier = Some n, DBSnapshot_Status = Some ''creating''\<rparr>])"

definition exampleDelete :: "string option \<Rightarrow> DBSnapshot list \<Rightarrow> error option \<times> DBSnapshot list" where
  "exampleDelete i r = (None, filter (\<lambda>s. DBSnapshotIdentifier s \<noteq> i) r)"

definition exampleStore :: "PostgresSnapshot \<Rightarrow> PostgresSnapshot list \<Rightarrow> error option \<times> PostgresSnapshot list" where
  "exampleStore s k = (None, s # k)"

definition exampleName :: "ObjectMeta \<Rightarrow> nat \<Rightarrow> error + string" where
  "exampleName om n = Inr (take n (Namespace om @ ''-'' @ Name om))"

definition exampleProvider :: "(PostgresSnapshot list, DBSnapshot list) PostgresSnapshotProvider" where
  "exampleProvider =
     \<lparr>DescribeDBSnapshots = exampleDescribe, CreateDBSnapshot = exampleCreate,
      DeleteDBSnapshot = exampleDelete, client_Update = exampleStore,
      client_Status_Update = exampleStore,
      BuildTimestampedInfraNameFromObjectCreation = exampleName,
      BuildInfraNameFromObject = exampleName, DefaultAwsIdentifierLength = 40\<rparr>"

definition exampleSnapshot :: "int option \<Rightarrow> PostgresSnapshot" where
  "exampleSnapshot deleted =
     \<lparr>snapshot_ObjectMeta = \<lparr>Name = ''snap'', Namespace = ''ns'', CreationTimestamp = 1,
                             DeletionTimestamp = deleted, Finalizers = [DefaultFinalizer]\<rparr>,
      snapshot_Status = \<lparr>SnapshotID = ''ns-snap''\<rparr>\<rparr>"

definition examplePostgres :: "StatusPhase \<Rightarrow> Postgres" where
  "examplePostgres ph =
     \<lparr>postgres_ObjectMeta = \<lparr>Name = ''db'', Namespace = ''ns'', CreationTimestamp = 0,
                             DeletionTimestamp = None, Finalizers = []\<rparr>,
      postgres_Spec = \<lparr>postgres_Tier = ''production''\<rparr>,
      postgres_Status = \<lparr>postgres_Phase = ph\<rparr>\<rparr>"

definition exampleWorld :: "DBSnapshot list \<Rightarrow> (PostgresSnapshot list, DBSnapshot list) world" where
  "exampleWorld r = \<lparr>k8s = [], aws = r, calls = []\<rparr>"

text \<open>Which calls go to the external service, and which of them are creates.\<close>

fun isRDSCall :: "call \<Rightarrow> bool" where
  "isRDSCall (DescribeDBSnapshotsCall n) = True"
| "isRDSCall (CreateDBSnapshotCall i n) = True"
| "isRDSCall (DeleteDBSnapshotCall i) = True"
| "isRDSCall (ClientUpdateCall s) = False"
| "isRDSCall (ClientStatusUpdateCall s) = False"


text \<open>
  A configuration to read strategies from: the cluster state is the shared config map,
  if there is one; the blob storage kind has tier \<open>development\<close> only, the SMTP
  credential kind has tiers \<open>development\<close> and \<open>production\<close>.
\<close>

definition blobConfig :: StrategyConfig where
  "blobConfig = \<lparr>Region = ''eu-west-1'', RawStrategy = ''bucket''\<rparr>"

definition smtpConfig :: StrategyConfig where
  "smtpConfig = \<lparr>Region = ''us-east-1'', RawStrategy = ''ses''\<rparr>"

definition exampleUnmarshal :: "string \<Rightarrow> error + (string \<rightharpoonup> StrategyConfig)" where
  "exampleUnmarshal raw =
     (if raw = ''blob tiers'' then Inr [''development'' \<mapsto> blobConfig]
      else if raw = ''smtp tiers'' then Inr [''development'' \<mapsto> smtpConfig, ''production'' \<mapsto> smtpConfig]
      else Inl (GoError ''invalid character''))"

definition exampleConfigImports :: configImports where
  "exampleConfigImports =
     \<lparr>BlobStorageResourceType = ''blobstorage'', SMTPCredentialResourceType = ''smtpcredentials'',
      json_Unmarshal = exampleUnmarshal\<rparr>"

definition exampleConfigMap :: ConfigMap where
  "exampleConfigMap =
     \<lparr>Data = [''blobstorage'' \<mapsto> ''blob tiers'', ''smtpcredentials'' \<mapsto> ''smtp tiers'']\<rparr>"

definition exampleManager :: "ConfigMap option ConfigMapConfigManager" where
  "exampleManager =
     \<lparr>configMapName = ''cloud-resources-aws-strategies'', configMapNamespace = ''kube-system'',
      client_Get = (\<lambda>key k. case k of None \<Rightarrow> Inl (GoError ''not found'') | Some cm \<Rightarrow> Inr cm)\<rparr>"

definition exampleSessionImports :: "(ConfigMap option, awsConfig) sessionImports" where
  "exampleSessionImports =
     \<lparr>ReadStorageStrategy = ConfigMap_ReadStorageStrategy exampleConfigImports exampleManager,
      PostgresResourceType = ''postgres'',
      GetRegionFromStrategyOrDefault = (\<lambda>cfg k. Return (''eu-west-1'', None)),
      ReconcileProviderCredentials =
        (\<lambda>ns k. ((Some \<lparr>AccessKeyID = ''id'', SecretAccessKey = ''key''\<rparr>, None), k)),
      NewSession = Inr\<rparr>"

text \<open>
  A reconciler to run: the state outside is the stored instance; the one provider
  supports strategy \<open>aws\<close>; the strategy read, the provider's create and the secret
  write return what is given.
\<close>

definition exampleSecretRef :: SecretRef where
  "exampleSecretRef = \<lparr>secret_Name = ''bucket-secret'', secret_Namespace = ''ns''\<rparr>"

definition exampleInstance :: "int option \<Rightarrow> StatusPhase \<Rightarrow> BlobStorage" where
  "exampleInstance deleted phase =
     \<lparr>blob_ObjectMeta = \<lparr>Name = ''bucket'', Namespace = ''ns'', CreationTimestamp = 1,
                         DeletionTimestamp = deleted, Finalizers = [DefaultFinalizer]\<rparr>,
      blob_Spec = \<lparr>spec_Type = ''managed'', spec_Tier = ''production'',
                   spec_SecretRef = Some exampleSecretRef\<rparr>,
      blob_Status = \<lparr>status_Phase = phase, status_Message = ''creation in progress'',
                     status_SecretRef = Some exampleSecretRef, status_Strategy = ''aws'',
                     status_Provider = ''aws-s3''\<rparr>\<rparr>"

definition exampleBlobProvider ::
  "BlobStorageInstance option \<times> string \<times> error option \<Rightarrow> BlobStorage BlobStorageProvider" where
  "exampleBlobProvider created =
     \<lparr>GetName = ''aws-s3'', SupportsStrategy = (\<lambda>s. s = ''aws''),
      CreateStorage = (\<lambda>inst w. (created, inst, w)),
      DeleteStorage = (\<lambda>inst w. ((''deletion started'', None), inst, w))\<rparr>"

definition exampleReconciler ::
  "DeploymentStrategyMapping option \<times> error option
   \<Rightarrow> BlobStorageInstance option \<times> string \<times> error option \<Rightarrow> error option
   \<Rightarrow> BlobStorage ReconcileBlobStorage" where
  "exampleReconciler strategy created secretWritten =
     \<lparr>reconciler_Get = (\<lambda>request w. Inr w), errors_IsNotFound = (\<lambda>err. False),
      reconciler_Status_Update = (\<lambda>inst w. (None, inst)),
      ReconcileResultSecret = (\<lambda>inst d w. (secretWritten, w)),
      GetStrategyMappingForDeploymentType = (\<lambda>ns t w. strategy),
      GetReconcileTime = 30,
      providerList = [exampleBlobProvider created]\<rparr>"

definition exampleRequest :: Request where
  "exampleRequest = \<lparr>request_Namespace = ''ns'', request_Name = ''bucket''\<rparr>"

definition exampleStart :: "BlobStorage \<Rightarrow> BlobStorage rworld" where
  "exampleStart inst = \<lparr>outside = inst, rcalls = []\<rparr>"

definition awsStrategy :: "DeploymentStrategyMapping option \<times> error option" where
  "awsStrategy = (Some \<lparr>strategy_BlobStorage = ''aws''\<rparr>, None)"

text \<open>Which calls of a reconciliation are creates of a provider.\<close>

fun isCreateStorageCall :: "rcall \<Rightarrow> bool" where
  "isCreateStorageCall (CreateStorageCall n inst) = True"
| "isCreateStorageCall c = False"

section \<open>The external lookup\<close>

lemma findSnapshotLoop_Some:
  "findSnapshotLoop cs n = Return (Some s) \<Longrightarrow> DBSnapshotIdentifier s = Some n \<and> Some s \<in> set cs"
  by (induction cs n rule: findSnapshotLoop.induct) (auto split: option.splits if_splits)

lemma findSnapshotLoop_None:
  "findSnapshotLoop cs n = Return None \<Longrightarrow> Some s \<in> set cs \<Longrightarrow> DBSnapshotIdentifier s \<noteq> Some n"
  by (induction cs n rule: findSnapshotLoop.induct) (auto split: option.splits if_splits)

lemma findSnapshotLoop_Panic:
  "findSnapshotLoop cs n = Panic \<Longrightarrow> None \<in> set cs \<or> (\<exists>s. Some s \<in> set cs \<and> DBSnapshotIdentifier s = None)"
  by (induction cs n rule: findSnapshotLoop.induct) (auto split: option.splits if_splits)

lemma findSnapshotResult_other_error:
  "\<forall>m. e \<noteq> AwsError ''DBSnapshotNotFound'' m \<Longrightarrow> findSnapshotResult (Inl e) n = Return (None, Some e)"
  by (cases e) auto

lemma findSnapshotResult_found:
  assumes "findSnapshotResult d n = Return (Some s, r)"
  shows "r = None \<and> DBSnapshotIdentifier s = Some n \<and> (\<exists>cs. d = Inr cs \<and> Some s \<in> set cs)"
proof -
  from assms obtain cs where d: "d = Inr cs"
    by (cases "(d, n)" rule: findSnapshotResult.cases) (auto split: if_splits)
  with assms have "findSnapshotLoop cs n = Return (Some s)" and r: "r = None"
    by (auto split: go.splits)
  with findSnapshotLoop_Some d r show ?thesis by blast
qed

lemma findSnapshotResult_absent:
  assumes "findSnapshotResult (Inr cs) n = Return (None, None)" and "Some s \<in> set cs"
  shows "DBSnapshotIdentifier s \<noteq> Some n"
proof -
  from assms(1) have "findSnapshotLoop cs n = Return None" by (auto split: go.splits)
  with assms(2) show ?thesis by (simp add: findSnapshotLoop_None)
qed

lemma findSnapshotResult_panic:
  assumes "findSnapshotResult d n = Panic"
  shows "\<exists>cs. d = Inr cs \<and> (None \<in> set cs \<or> (\<exists>s. Some s \<in> set cs \<and> DBSnapshotIdentifier s = None))"
proof -
  from assms obtain cs where d: "d = Inr cs"
    by (cases "(d, n)" rule: findSnapshotResult.cases) (auto split: if_splits)
  with assms have "findSnapshotLoop cs n = Panic" by (auto split: go.splits)
  with findSnapshotLoop_Panic d show ?thesis by blast
qed

text \<open>
  C10. The lookup covers every outcome of the describe call. An error whose AWS code is
  \<open>DBSnapshotNotFound\<close> gives no snapshot and no error. Every other error is returned
  as it is. A snapshot is returned only when its identifier is the requested name, and it
  is one of the listed snapshots; no snapshot and no error on a list means that no listed
  snapshot has the name. The one remaining outcome is the panic of a nil dereference, on
  a listed element or identifier that is a nil pointer.
\<close>

theorem findSnapshotInstance_outcomes:
  "(\<forall>m. findSnapshotResult (Inl (AwsError ''DBSnapshotNotFound'' m)) n = Return (None, None))
   \<and> (\<forall>e. (\<forall>m. e \<noteq> AwsError ''DBSnapshotNotFound'' m) \<longrightarrow>
          findSnapshotResult (Inl e) n = Return (None, Some e))
   \<and> (\<forall>s r. findSnapshotResult d n = Return (Some s, r) \<longrightarrow>
          r = None \<and> DBSnapshotIdentifier s = Some n \<and> (\<exists>cs. d = Inr cs \<and> Some s \<in> set cs))
   \<and> (\<forall>cs s. findSnapshotResult (Inr cs) n = Return (None, None) \<and> Some s \<in> set cs \<longrightarrow>
          DBSnapshotIdentifier s \<noteq> Some n)
   \<and> (findSnapshotResult d n = Panic \<longrightarrow>
          (\<exists>cs. d = Inr cs \<and> (None \<in> set cs \<or> (\<exists>s. Some s \<in> set cs \<and> DBSnapshotIdentifier s = None))))"
proof (intro conjI)
  show "\<forall>m. findSnapshotResult (Inl (AwsError ''DBSnapshotNotFound'' m)) n = Return (None, None)"
    by simp
  show "\<forall>e. (\<forall>m. e \<noteq> AwsError ''DBSnapshotNotFound'' m) \<longrightarrow>
          findSnapshotResult (Inl e) n = Return (None, Some e)"
    using findSnapshotResult_other_error by blast
  show "\<forall>s r. findSnapshotResult d n = Return (Some s, r) \<longrightarrow>
          r = None \<and> DBSnapshotIdentifier s = Some n \<and> (\<exists>cs. d = Inr cs \<and> Some s \<in> set cs)"
    using findSnapshotResult_found by blast
  show "\<forall>cs s. findSnapshotResult (Inr cs) n = Return (None, None) \<and> Some s \<in> set cs \<longrightarrow>
          DBSnapshotIdentifier s \<noteq> Some n"
    using findSnapshotResult_absent by blast
  show "findSnapshotResult d n = Panic \<longrightarrow>
          (\<exists>cs. d = Inr cs \<and> (None \<in> set cs \<or> (\<exists>s. Some s \<in> set cs \<and> DBSnapshotIdentifier s = None)))"
    using findSnapshotResult_panic by blast
qed

theorem findSnapshotInstance_outcomes_witness:
  "findSnapshotResult (Inl (AwsError ''DBSnapshotNotFound'' ''no such snapshot'')) ''cluster-ns-snap-1'' = Return (None, None)
   \<and> findSnapshotResult (Inl (AwsError ''Throttling'' ''slow down'')) ''cluster-ns-snap-1''
       = Return (None, Some (AwsError ''Throttling'' ''slow down''))
   \<and> findSnapshotResult (Inr [Some snapA, Some snapB]) ''cluster-ns-snap-1'' = Return (Some snapB, None)
   \<and> DBSnapshotIdentifier snapB = Some ''cluster-ns-snap-1''
   \<and> findSnapshotResult (Inr [Some snapA]) ''cluster-ns-snap-1'' = Return (None, None)
   \<and> DBSnapshotIdentifier snapA \<noteq> Some ''cluster-ns-snap-1''
   \<and> findSnapshotResult (Inr [None, Some snapB]) ''cluster-ns-snap-1'' = Panic"
  using findSnapshotInstance_outcomes [of "''cluster-ns-snap-1''" "Inr [Some snapA, Some snapB]"]
  by (simp add: snapA_def snapB_def)

lemmas example_defs =
  exampleDescribe_def exampleCreate_def exampleDelete_def exampleStore_def exampleName_def
  exampleProvider_def exampleSnapshot_def examplePostgres_def exampleWorld_def

lemmas provider_defs =
  deletePostgresSnapshot_def createPostgresSnapshot_def createAfterLookup_def
  reportFoundSnapshot_def
  findSnapshotInstance_def rdsDescribe_def rdsCreate_def rdsDelete_def clientUpdate_def
  clientStatusUpdate_def RemoveFinalizer_def Let_def

section \<open>Deletion of a snapshot\<close>

lemma findSnapshotInstance_calls:
  "findSnapshotInstance p n st = (looked, st1) \<Longrightarrow>
   calls st1 = calls st @ [DescribeDBSnapshotsCall n] \<and> k8s st1 = k8s st
   \<and> looked = findSnapshotResult (fst (DescribeDBSnapshots p n (aws st))) n
   \<and> aws st1 = snd (DescribeDBSnapshots p n (aws st))"
  by (auto simp: findSnapshotInstance_def rdsDescribe_def split: prod.splits)

lemma findSnapshotResult_none:
  assumes "findSnapshotResult d n = Return (None, None)"
  shows "(\<exists>m. d = Inl (AwsError ''DBSnapshotNotFound'' m))
         \<or> (\<exists>cs. d = Inr cs \<and> (\<forall>s. Some s \<in> set cs \<longrightarrow> DBSnapshotIdentifier s \<noteq> Some n))"
proof (cases d)
  case (Inl e)
  with assms show ?thesis by (cases e) (auto split: if_splits)
next
  case (Inr cs)
  with assms findSnapshotResult_absent[of cs n] show ?thesis by blast
qed

lemma deletePostgresSnapshot_paths:
  assumes "deletePostgresSnapshot p snapshot postgres st = (res, snapshot', st')"
    and "findSnapshotInstance p (SnapshotID (snapshot_Status snapshot)) st = (looked, st1)"
  shows "(Finalizers (snapshot_ObjectMeta snapshot') \<noteq> Finalizers (snapshot_ObjectMeta snapshot)
          \<or> (\<exists>s. ClientUpdateCall s \<in> set (drop (length (calls st)) (calls st')))
          \<longrightarrow> looked = Return (None, None))
       \<and> (looked = Return (None, None) \<longrightarrow>
            snapshot' = snapshot\<lparr>snapshot_ObjectMeta :=
                          RemoveFinalizer (snapshot_ObjectMeta snapshot) DefaultFinalizer\<rparr>
            \<and> DefaultFinalizer \<notin> set (Finalizers (snapshot_ObjectMeta snapshot'))
            \<and> calls st' = calls st @ [DescribeDBSnapshotsCall (SnapshotID (snapshot_Status snapshot)),
                                      ClientUpdateCall snapshot'])
       \<and> (\<forall>found err. looked = Return (found, Some err) \<longrightarrow>
            snapshot' = snapshot
            \<and> calls st' = calls st @ [DescribeDBSnapshotsCall (SnapshotID (snapshot_Status snapshot))])
       \<and> (\<forall>found. looked = Return (Some found, None) \<longrightarrow>
            snapshot' = snapshot
            \<and> calls st' = calls st @ [DescribeDBSnapshotsCall (SnapshotID (snapshot_Status snapshot)),
                                      DeleteDBSnapshotCall (DBSnapshotIdentifier found)])
       \<and> (looked = Panic \<longrightarrow>
            snapshot' = snapshot
            \<and> calls st' = calls st @ [DescribeDBSnapshotsCall (SnapshotID (snapshot_Status snapshot))])"
  using assms findSnapshotInstance_calls[OF assms(2)]
  by (auto simp: deletePostgresSnapshot_def Let_def clientUpdate_def rdsDelete_def RemoveFinalizer_def
           split: prod.splits go.splits option.splits)

text \<open>
  C1. In \<open>deletePostgresSnapshot\<close> the finalizer is removed, and the record written
  back, only when the lookup has returned no snapshot and no error. When the lookup fails,
  and when a snapshot is found and the external delete is issued (whether it fails or is
  merely started), the record is returned as it was and no update of it is sent: the
  finalizer stays attached. The lookup returns no snapshot and no error only when the
  service answered \<open>DBSnapshotNotFound\<close> or listed no snapshot of that name.
\<close>

theorem deletePostgresSnapshot_finalizer:
  assumes "deletePostgresSnapshot p snapshot postgres st = (res, snapshot', st')"
    and "findSnapshotInstance p (SnapshotID (snapshot_Status snapshot)) st = (looked, st1)"
  shows "(Finalizers (snapshot_ObjectMeta snapshot') \<noteq> Finalizers (snapshot_ObjectMeta snapshot)
          \<or> (\<exists>s. ClientUpdateCall s \<in> set (drop (length (calls st)) (calls st')))
          \<longrightarrow> looked = Return (None, None))
       \<and> (looked = Return (None, None) \<longrightarrow>
            snapshot' = snapshot\<lparr>snapshot_ObjectMeta :=
                          RemoveFinalizer (snapshot_ObjectMeta snapshot) DefaultFinalizer\<rparr>
            \<and> DefaultFinalizer \<notin> set (Finalizers (snapshot_ObjectMeta snapshot'))
            \<and> calls st' = calls st @ [DescribeDBSnapshotsCall (SnapshotID (snapshot_Status snapshot)),
                                      ClientUpdateCall snapshot'])
       \<and> (\<forall>found err. looked = Return (found, Some err) \<longrightarrow>
            snapshot' = snapshot
            \<and> calls st' = calls st @ [DescribeDBSnapshotsCall (SnapshotID (snapshot_Status snapshot))])
       \<and> (\<forall>found. looked = Return (Some found, None) \<longrightarrow>
            snapshot' = snapshot
            \<and> calls st' = calls st @ [DescribeDBSnapshotsCall (SnapshotID (snapshot_Status snapshot)),
                                      DeleteDBSnapshotCall (DBSnapshotIdentifier found)])
       \<and> (looked = Panic \<longrightarrow>
            snapshot' = snapshot
            \<and> calls st' = calls st @ [DescribeDBSnapshotsCall (SnapshotID (snapshot_Status snapshot))])
       \<and> (looked = Return (None, None) \<longrightarrow>
            (\<exists>m. fst (DescribeDBSnapshots p (SnapshotID (snapshot_Status snapshot)) (aws st))
                   = Inl (AwsError ''DBSnapshotNotFound'' m))
            \<or> (\<exists>cs. fst (DescribeDBSnapshots p (SnapshotID (snapshot_Status snapshot)) (aws st)) = Inr cs
                    \<and> (\<forall>s. Some s \<in> set cs \<longrightarrow>
                           DBSnapshotIdentifier s \<noteq> Some (SnapshotID (snapshot_Status snapshot)))))"
proof -
  note paths = deletePostgresSnapshot_paths[OF assms]
  have absent: "looked = Return (None, None) \<longrightarrow>
            (\<exists>m. fst (DescribeDBSnapshots p (SnapshotID (snapshot_Status snapshot)) (aws st))
                   = Inl (AwsError ''DBSnapshotNotFound'' m))
            \<or> (\<exists>cs. fst (DescribeDBSnapshots p (SnapshotID (snapshot_Status snapshot)) (aws st)) = Inr cs
                    \<and> (\<forall>s. Some s \<in> set cs \<longrightarrow>
                           DBSnapshotIdentifier s \<noteq> Some (SnapshotID (snapshot_Status snapshot))))"
  proof
    assume "looked = Return (None, None)"
    with findSnapshotInstance_calls[OF assms(2)]
    have "findSnapshotResult (fst (DescribeDBSnapshots p (SnapshotID (snapshot_Status snapshot)) (aws st)))
            (SnapshotID (snapshot_Status snapshot)) = Return (None, None)"
      by simp
    then show "(\<exists>m. fst (DescribeDBSnapshots p (SnapshotID (snapshot_Status snapshot)) (aws st))
                   = Inl (AwsError ''DBSnapshotNotFound'' m))
            \<or> (\<exists>cs. fst (DescribeDBSnapshots p (SnapshotID (snapshot_Status snapshot)) (aws st)) = Inr cs
                    \<and> (\<forall>s. Some s \<in> set cs \<longrightarrow>
                           DBSnapshotIdentifier s \<noteq> Some (SnapshotID (snapshot_Status snapshot))))"
      by (rule findSnapshotResult_none)
  qed
  from paths have p1: "Finalizers (snapshot_ObjectMeta snapshot') \<noteq> Finalizers (snapshot_ObjectMeta snapshot)
          \<or> (\<exists>s. ClientUpdateCall s \<in> set (drop (length (calls st)) (calls st')))
          \<longrightarrow> looked = Return (None, None)"
    by (rule conjunct1)
  from paths[THEN conjunct2] have p2: "looked = Return (None, None) \<longrightarrow>
            snapshot' = snapshot\<lparr>snapshot_ObjectMeta :=
                          RemoveFinalizer (snapshot_ObjectMeta snapshot) DefaultFinalizer\<rparr>
            \<and> DefaultFinalizer \<notin> set (Finalizers (snapshot_ObjectMeta snapshot'))
            \<and> calls st' = calls st @ [DescribeDBSnapshotsCall (SnapshotID (snapshot_Status snapshot)),
                                      ClientUpdateCall snapshot']"
    by (rule conjunct1)
  note p3 = paths[THEN conjunct2, THEN conjunct2, THEN conjunct1]
  note p4 = paths[THEN conjunct2, THEN conjunct2, THEN conjunct2, THEN conjunct1]
  note p5 = paths[THEN conjunct2, THEN conjunct2, THEN conjunct2, THEN conjunct2]
  show ?thesis
    by (rule conjI[OF p1 conjI[OF p2 conjI[OF p3 conjI[OF p4 conjI[OF p5 absent]]]]])
qed

theorem deletePostgresSnapshot_finalizer_witness:
  "fst (deletePostgresSnapshot exampleProvider (exampleSnapshot (Some 2)) (examplePostgres PhaseComplete)
          (exampleWorld [])) = Return (''snapshot deleted'', None)
   \<and> fst (findSnapshotInstance exampleProvider ''ns-snap'' (exampleWorld [])) = Return (None, None)
   \<and> Finalizers (snapshot_ObjectMeta (exampleSnapshot (Some 2))) = [DefaultFinalizer]
   \<and> Finalizers (snapshot_ObjectMeta (fst (snd (deletePostgresSnapshot exampleProvider
          (exampleSnapshot (Some 2)) (examplePostgres PhaseComplete) (exampleWorld []))))) = []"
  using deletePostgresSnapshot_finalizer
    [of exampleProvider "exampleSnapshot (Some 2)" "examplePostgres PhaseComplete" "exampleWorld []"
        "Return (''snapshot deleted'', None)"
        "fst (snd (deletePostgresSnapshot exampleProvider (exampleSnapshot (Some 2))
            (examplePostgres PhaseComplete) (exampleWorld [])))"
        "snd (snd (deletePostgresSnapshot exampleProvider (exampleSnapshot (Some 2))
            (examplePostgres PhaseComplete) (exampleWorld [])))"
        "Return (None, None)"
        "snd (findSnapshotInstance exampleProvider ''ns-snap'' (exampleWorld []))"]
  by (simp add: example_defs provider_defs)

section \<open>Creation of a snapshot\<close>

text \<open>
  C8 as stated fails: with the primary \<open>InProgress\<close> and no snapshot yet, the message
  is "waiting for postgres instance to be available" and the describe call has been made.
\<close>

theorem createPostgresSnapshot_waiting_counterexample:
  "fst (createPostgresSnapshot exampleProvider (exampleSnapshot None) (examplePostgres PhaseInProgress)
          (exampleWorld []))
     = Return (None, ''waiting for postgres instance to be available'', None)
   \<and> fst (createPostgresSnapshot exampleProvider (exampleSnapshot None) (examplePostgres PhaseInProgress)
          (exampleWorld []))
     \<noteq> Return (None, ''waiting for primary resource'', None)
   \<and> filter isRDSCall (calls (snd (snd (createPostgresSnapshot exampleProvider (exampleSnapshot None)
          (examplePostgres PhaseInProgress) (exampleWorld [])))))
     = [DescribeDBSnapshotsCall ''ns-snap'']"
  by (simp add: example_defs provider_defs)

text \<open>
  C8, amended. When the name has been derived and stored, the lookup finds no snapshot
  and the primary resource is \<open>InProgress\<close>, the create operation returns a nil handle
  and no error with the message "waiting for postgres instance to be available"; the only
  call to the external service is the describe of the lookup, no create is issued.
\<close>

theorem createPostgresSnapshot_waiting:
  assumes "BuildTimestampedInfraNameFromObjectCreation p (snapshot_ObjectMeta snapshot)
             (DefaultAwsIdentifierLength p) = Inr snapshotName"
    and "fst (client_Status_Update p
               (snapshot\<lparr>snapshot_Status := (snapshot_Status snapshot)\<lparr>SnapshotID := snapshotName\<rparr>\<rparr>)
               (k8s st)) = None"
    and "BuildInfraNameFromObject p (postgres_ObjectMeta postgres) (DefaultAwsIdentifierLength p)
           = Inr instanceName"
    and "findSnapshotResult (fst (DescribeDBSnapshots p snapshotName (aws st))) snapshotName
           = Return (None, None)"
    and "postgres_Phase (postgres_Status postgres) = PhaseInProgress"
  shows "fst (createPostgresSnapshot p snapshot postgres st)
           = Return (None, ''waiting for postgres instance to be available'', None)
         \<and> filter isRDSCall (drop (length (calls st))
               (calls (snd (snd (createPostgresSnapshot p snapshot postgres st)))))
           = [DescribeDBSnapshotsCall snapshotName]"
  using assms
  by (auto simp: provider_defs split: prod.splits)

theorem createPostgresSnapshot_waiting_witness:
  "fst (createPostgresSnapshot exampleProvider (exampleSnapshot None) (examplePostgres PhaseInProgress)
          (exampleWorld [snapA]))
     = Return (None, ''waiting for postgres instance to be available'', None)
   \<and> filter isRDSCall (calls (snd (snd (createPostgresSnapshot exampleProvider (exampleSnapshot None)
          (examplePostgres PhaseInProgress) (exampleWorld [snapA])))))
     = [DescribeDBSnapshotsCall ''ns-snap'']"
  using createPostgresSnapshot_waiting
    [of exampleProvider "exampleSnapshot None" "''ns-snap''" "exampleWorld [snapA]"
        "examplePostgres PhaseInProgress" "''ns-db''"]
  by (simp add: example_defs snapA_def)














section \<open>The strategy configuration\<close>

lemmas config_example_defs =
  blobConfig_def smtpConfig_def exampleUnmarshal_def exampleConfigImports_def exampleConfigMap_def
  exampleManager_def exampleSessionImports_def

lemma getTierStrategyForProvider_resourceType:
  "getTierStrategyForProvider im m k resourceType tier
     = getTierStrategyForProvider im m k resourceType' tier"
  by (simp add: getTierStrategyForProvider_def)

text \<open>
  C5 fails on the code: \<open>getTierStrategyForProvider\<close> does not read its
  \<open>resourceType\<close> argument, it indexes the config map at the blob storage kind. So
  \<open>ReadSMTPCredentialSetStrategy\<close> returns what \<open>ReadBlobStorageStrategy\<close> returns:
  on the example configuration it gives the blob storage strategy for tier
  \<open>development\<close> and nothing for tier \<open>production\<close>, though the SMTP credential kind's
  mapping holds another strategy for both.
\<close>

theorem ReadSMTPCredentialSetStrategy_reads_blobstorage:
  "ReadSMTPCredentialSetStrategy im m k tier = ReadBlobStorageStrategy im m k tier
   \<and> ReadSMTPCredentialSetStrategy exampleConfigImports exampleManager (Some exampleConfigMap)
         ''development'' = (Some blobConfig, None)
   \<and> ReadSMTPCredentialSetStrategy exampleConfigImports exampleManager (Some exampleConfigMap)
         ''production'' = (None, None)
   \<and> Data exampleConfigMap (SMTPCredentialResourceType exampleConfigImports) = Some ''smtp tiers''
   \<and> json_Unmarshal exampleConfigImports ''smtp tiers''
         = Inr [''development'' \<mapsto> smtpConfig, ''production'' \<mapsto> smtpConfig]
   \<and> blobConfig \<noteq> smtpConfig"
  by (simp add: ReadSMTPCredentialSetStrategy_def ReadBlobStorageStrategy_def
        getTierStrategyForProvider_def config_example_defs)

lemma getTierStrategyForProvider_missing_tier:
  assumes "client_Get m (configMapName m, configMapNamespace m) k = Inr cm"
    and "Data cm (BlobStorageResourceType im) = Some raw" and "raw \<noteq> ''''"
    and "json_Unmarshal im raw = Inr strategyMapping" and "strategyMapping tier = None"
  shows "getTierStrategyForProvider im m k resourceType tier = (None, None)"
  using assms by (simp add: getTierStrategyForProvider_def)

lemma getAwsSession_nil_strategy:
  assumes "ReadStorageStrategy sim (PostgresResourceType sim) (postgres_Tier (postgres_Spec postgresCr)) k'
             = (None, None)"
  shows "fst (getAwsSession sim postgresCr k') = Panic
         \<or> (\<exists>err. fst (getAwsSession sim postgresCr k') = Return (None, Some err))"
  using assms
  by (auto simp: getAwsSession_def split: go.splits prod.splits option.splits)

text \<open>
  C6 fails on the code. With the shared record present, a mapping for the kind and no
  entry for the tier, \<open>getTierStrategyForProvider\<close> returns a nil strategy and no
  error. The caller \<open>getAwsSession\<close> does not take that for a state to wait in: given
  a nil strategy and no error by the resolver, it either panics on \<open>stratCfg.Region\<close>
  or returns an error; it never returns a session.
\<close>

theorem missing_tier_not_pending:
  "(client_Get m (configMapName m, configMapNamespace m) k = Inr cm
      \<and> Data cm (BlobStorageResourceType im) = Some raw \<and> raw \<noteq> ''''
      \<and> json_Unmarshal im raw = Inr strategyMapping \<and> strategyMapping tier = None
    \<longrightarrow> getTierStrategyForProvider im m k resourceType tier = (None, None))
   \<and> (ReadStorageStrategy sim (PostgresResourceType sim) (postgres_Tier (postgres_Spec postgresCr)) k'
         = (None, None)
    \<longrightarrow> fst (getAwsSession sim postgresCr k') = Panic
        \<or> (\<exists>err. fst (getAwsSession sim postgresCr k') = Return (None, Some err)))"
proof (intro conjI impI)
  assume a: "client_Get m (configMapName m, configMapNamespace m) k = Inr cm
      \<and> Data cm (BlobStorageResourceType im) = Some raw \<and> raw \<noteq> []
      \<and> json_Unmarshal im raw = Inr strategyMapping \<and> strategyMapping tier = None"
  then show "getTierStrategyForProvider im m k resourceType tier = (None, None)"
    by (intro getTierStrategyForProvider_missing_tier[of m k cm im raw strategyMapping tier]) simp_all
next
  assume "ReadStorageStrategy sim (PostgresResourceType sim) (postgres_Tier (postgres_Spec postgresCr)) k'
         = (None, None)"
  then show "fst (getAwsSession sim postgresCr k') = Panic
        \<or> (\<exists>err. fst (getAwsSession sim postgresCr k') = Return (None, Some err))"
    by (rule getAwsSession_nil_strategy)
qed

theorem missing_tier_not_pending_witness:
  "getTierStrategyForProvider exampleConfigImports exampleManager (Some exampleConfigMap)
       ''postgres'' ''production'' = (None, None)
   \<and> ReadStorageStrategy exampleSessionImports ''postgres'' ''production'' (Some exampleConfigMap)
       = (None, None)
   \<and> fst (getAwsSession exampleSessionImports (examplePostgres PhaseComplete) (Some exampleConfigMap))
       = Panic"
  using missing_tier_not_pending
    [where m = exampleManager and k = "Some exampleConfigMap" and cm = exampleConfigMap
       and im = exampleConfigImports and raw = "''blob tiers''"
       and strategyMapping = "[''development'' \<mapsto> blobConfig]" and tier = "''production''"
       and resourceType = "''postgres''" and sim = exampleSessionImports
       and postgresCr = "examplePostgres PhaseComplete" and k' = "Some exampleConfigMap"]
  by (simp add: getAwsSession_def ConfigMap_ReadStorageStrategy_def getTierStrategyForProvider_def
        config_example_defs examplePostgres_def)

section \<open>Reconciliation of a blob storage request\<close>

lemmas reconcile_example_defs =
  exampleSecretRef_def exampleInstance_def exampleBlobProvider_def exampleReconciler_def
  exampleRequest_def exampleStart_def awsStrategy_def

lemmas reconcile_defs =
  Reconcile_def reconcileDelete_def reconcileCreate_def UpdatePhase_def statusUpdate_def
  deleteStorage_def createStorage_def reconcileResultSecret_def Let_def

lemma UpdatePhase_calls:
  "UpdatePhase r inst phase msg st = (err, inst', st') \<Longrightarrow>
   inst' = inst\<lparr>blob_Status := (blob_Status inst)\<lparr>status_Phase := phase, status_Message := msg\<rparr>\<rparr>
   \<and> rcalls st' = rcalls st @ [StatusUpdateCall inst']
   \<and> err = fst (reconciler_Status_Update r inst' (outside st))
   \<and> outside st' = snd (reconciler_Status_Update r inst' (outside st))"
  by (auto simp: UpdatePhase_def statusUpdate_def Let_def split: prod.splits)

lemma reconcileDelete_calls:
  "rcalls (snd (reconcileDelete r p inst st))
     = rcalls st @ [DeleteStorageCall (GetName p) inst,
         StatusUpdateCall ((fst (snd (DeleteStorage p inst (outside st))))
           \<lparr>blob_Status := (blob_Status (fst (snd (DeleteStorage p inst (outside st)))))
              \<lparr>status_Phase := (case snd (fst (DeleteStorage p inst (outside st))) of
                                   Some err \<Rightarrow> PhaseFailed | None \<Rightarrow> PhaseDeleteInProgress),
               status_Message := fst (fst (DeleteStorage p inst (outside st)))\<rparr>\<rparr>)]"
  by (auto simp: reconcileDelete_def deleteStorage_def UpdatePhase_def statusUpdate_def Let_def
      split: prod.splits option.splits)

lemma reconcileProviders_supported:
  "find (\<lambda>p. SupportsStrategy p (strategy_BlobStorage sm)) ps = Some p \<Longrightarrow>
   reconcileProviders r ps (Some sm) inst st =
     (if DeletionTimestamp (blob_ObjectMeta inst) \<noteq> None then reconcileDelete r p inst st
      else reconcileCreate r p sm inst st)"
  by (induction ps) (auto split: if_splits)

lemma reconcileProviders_deleted_calls:
  "DeletionTimestamp (blob_ObjectMeta inst) \<noteq> None \<Longrightarrow>
   \<exists>ext. rcalls (snd (reconcileProviders r ps stratMap inst st)) = rcalls st @ ext
         \<and> filter isCreateStorageCall ext = []"
proof (induction ps)
  case Nil
  then show ?case
    by (auto simp: UpdatePhase_def statusUpdate_def Let_def split: prod.splits option.splits)
next
  case (Cons p ps)
  show ?case
  proof (cases stratMap)
    case None
    then show ?thesis by simp
  next
    case (Some sm)
    show ?thesis
    proof (cases "SupportsStrategy p (strategy_BlobStorage sm)")
      case True
      with Some Cons.prems show ?thesis by (simp add: reconcileDelete_calls)
    next
      case False
      with Some Cons show ?thesis by simp
    qed
  qed
qed

lemma Reconcile_found:
  assumes "reconciler_Get r request (outside st) = Inr inst"
    and "GetStrategyMappingForDeploymentType r (request_Namespace request) (spec_Type (blob_Spec inst))
           (outside st) = (stratMap, None)"
  shows "Reconcile r request st =
           reconcileProviders r (providerList r) stratMap inst
             (st\<lparr>rcalls := rcalls st @ [GetCall request,
                    GetStrategyMappingCall (request_Namespace request) (spec_Type (blob_Spec inst))]\<rparr>)"
  using assms by (simp add: Reconcile_def Let_def)

lemma reconcileProviders_unsupported:
  "find (\<lambda>p. SupportsStrategy p (strategy_BlobStorage sm)) ps = None \<Longrightarrow>
   reconcileProviders r ps (Some sm) inst st = reconcileProviders r [] (Some sm) inst st"
  by (induction ps) (auto split: if_splits)

lemma Reconcile_on_strategy_error:
  assumes "reconciler_Get r request (outside st) = Inr inst"
    and "GetStrategyMappingForDeploymentType r (request_Namespace request) (spec_Type (blob_Spec inst))
           (outside st) = (stratMap, Some err)"
    and "failed = inst\<lparr>blob_Status := (blob_Status inst)
            \<lparr>status_Phase := PhaseFailed,
             status_Message := ''failed to read deployment type config for deployment''\<rparr>\<rparr>"
  shows "Reconcile r request st =
           (Return (emptyResult,
              (case fst (reconciler_Status_Update r failed (outside st)) of
                 Some updateErr \<Rightarrow> Some updateErr
               | None \<Rightarrow> Some (Wrap (''failed to read deployment type config for deployment ''
                                       @ spec_Type (blob_Spec inst)) err))),
            \<lparr>outside = snd (reconciler_Status_Update r failed (outside st)),
             rcalls = rcalls st @ [GetCall request,
                        GetStrategyMappingCall (request_Namespace request) (spec_Type (blob_Spec inst)),
                        StatusUpdateCall failed]\<rparr>)"
  using assms
  by (auto simp: Reconcile_def UpdatePhase_def statusUpdate_def Let_def split: prod.splits option.splits)

lemma Reconcile_create_run:
  assumes "reconciler_Get r request (outside st) = Inr inst"
    and "DeletionTimestamp (blob_ObjectMeta inst) = None"
    and "GetStrategyMappingForDeploymentType r (request_Namespace request) (spec_Type (blob_Spec inst))
           (outside st) = (Some sm, None)"
    and "find (\<lambda>p. SupportsStrategy p (strategy_BlobStorage sm)) (providerList r) = Some p"
  shows "Reconcile r request st =
           reconcileCreate r p sm inst
             (st\<lparr>rcalls := rcalls st @ [GetCall request,
                    GetStrategyMappingCall (request_Namespace request) (spec_Type (blob_Spec inst))]\<rparr>)"
  using Reconcile_found[OF assms(1,3)] reconcileProviders_supported[OF assms(4)] assms(2) by simp

text \<open>
  C2 as stated fails: with deletion requested and the strategy read failing, the
  strategy is read first and the request is marked \<open>Failed\<close>; no delete is called.
\<close>

theorem Reconcile_deletion_counterexample:
  "DeletionTimestamp (blob_ObjectMeta (exampleInstance (Some 5) PhaseInProgress)) = Some 5
   \<and> rcalls (snd (Reconcile
         (exampleReconciler (None, Some (GoError ''config map not found'')) (None, ''started'', None) None)
         exampleRequest (exampleStart (exampleInstance (Some 5) PhaseInProgress))))
     = [GetCall exampleRequest, GetStrategyMappingCall ''ns'' ''managed'',
        StatusUpdateCall ((exampleInstance (Some 5) PhaseInProgress)
          \<lparr>blob_Status := (blob_Status (exampleInstance (Some 5) PhaseInProgress))
             \<lparr>status_Phase := PhaseFailed,
              status_Message := ''failed to read deployment type config for deployment''\<rparr>\<rparr>)]
   \<and> status_Phase (blob_Status (outside (snd (Reconcile
         (exampleReconciler (None, Some (GoError ''config map not found'')) (None, ''started'', None) None)
         exampleRequest (exampleStart (exampleInstance (Some 5) PhaseInProgress))))))
       = PhaseFailed"
  by (simp add: reconcile_example_defs reconcile_defs)

text \<open>
  C2, amended. When deletion has been requested, the reconciliation never calls the
  provider's create. Strategy resolution and provider selection come first: when the
  strategy is read and a provider supports it, that provider's delete is called on the
  instance as fetched, whatever its phase; when the strategy read fails, or no provider
  supports the strategy, the phase is set to \<open>Failed\<close> and no delete is called.
\<close>

theorem Reconcile_deletion_requested:
  assumes get: "reconciler_Get r request (outside st) = Inr inst"
    and del: "DeletionTimestamp (blob_ObjectMeta inst) \<noteq> None"
  shows "filter isCreateStorageCall (drop (length (rcalls st)) (rcalls (snd (Reconcile r request st)))) = []
         \<and> (\<forall>sm p. GetStrategyMappingForDeploymentType r (request_Namespace request)
                      (spec_Type (blob_Spec inst)) (outside st) = (Some sm, None)
                    \<and> find (\<lambda>p. SupportsStrategy p (strategy_BlobStorage sm)) (providerList r) = Some p
              \<longrightarrow> take 3 (drop (length (rcalls st)) (rcalls (snd (Reconcile r request st))))
                    = [GetCall request,
                       GetStrategyMappingCall (request_Namespace request) (spec_Type (blob_Spec inst)),
                       DeleteStorageCall (GetName p) inst])
         \<and> (\<forall>stratMap err. GetStrategyMappingForDeploymentType r (request_Namespace request)
                      (spec_Type (blob_Spec inst)) (outside st) = (stratMap, Some err)
              \<longrightarrow> drop (length (rcalls st)) (rcalls (snd (Reconcile r request st)))
                    = [GetCall request,
                       GetStrategyMappingCall (request_Namespace request) (spec_Type (blob_Spec inst)),
                       StatusUpdateCall (inst\<lparr>blob_Status := (blob_Status inst)
                          \<lparr>status_Phase := PhaseFailed,
                           status_Message := ''failed to read deployment type config for deployment''\<rparr>\<rparr>)])
         \<and> (\<forall>sm. GetStrategyMappingForDeploymentType r (request_Namespace request)
                      (spec_Type (blob_Spec inst)) (outside st) = (Some sm, None)
                    \<and> find (\<lambda>p. SupportsStrategy p (strategy_BlobStorage sm)) (providerList r) = None
              \<longrightarrow> drop (length (rcalls st)) (rcalls (snd (Reconcile r request st)))
                    = [GetCall request,
                       GetStrategyMappingCall (request_Namespace request) (spec_Type (blob_Spec inst)),
                       StatusUpdateCall (inst\<lparr>blob_Status := (blob_Status inst)
                          \<lparr>status_Phase := PhaseFailed,
                           status_Message := ''unsupported deployment strategy''\<rparr>\<rparr>)])"
proof (intro conjI allI impI)
  obtain stratMap e where g: "GetStrategyMappingForDeploymentType r (request_Namespace request)
                      (spec_Type (blob_Spec inst)) (outside st) = (stratMap, e)"
    by fastforce
  show "filter isCreateStorageCall (drop (length (rcalls st)) (rcalls (snd (Reconcile r request st)))) = []"
  proof (cases e)
    case (Some err)
    from Reconcile_on_strategy_error[OF get g[unfolded Some] refl] show ?thesis by simp
  next
    case None
    from reconcileProviders_deleted_calls[OF del] obtain ext where
      "rcalls (snd (reconcileProviders r (providerList r) stratMap inst
             (st\<lparr>rcalls := rcalls st @ [GetCall request,
                    GetStrategyMappingCall (request_Namespace request) (spec_Type (blob_Spec inst))]\<rparr>)))
        = rcalls (st\<lparr>rcalls := rcalls st @ [GetCall request,
                    GetStrategyMappingCall (request_Namespace request) (spec_Type (blob_Spec inst))]\<rparr>) @ ext"
      and "filter isCreateStorageCall ext = []"
      by blast
    with Reconcile_found[OF get g[unfolded None]] show ?thesis by simp
  qed
next
  fix sm p
  assume a: "GetStrategyMappingForDeploymentType r (request_Namespace request)
                      (spec_Type (blob_Spec inst)) (outside st) = (Some sm, None)
                    \<and> find (\<lambda>p. SupportsStrategy p (strategy_BlobStorage sm)) (providerList r) = Some p"
  then have "Reconcile r request st = reconcileDelete r p inst
             (st\<lparr>rcalls := rcalls st @ [GetCall request,
                    GetStrategyMappingCall (request_Namespace request) (spec_Type (blob_Spec inst))]\<rparr>)"
    using Reconcile_found[OF get, of "Some sm"] reconcileProviders_supported[of sm "providerList r" p] del
    by simp
  then show "take 3 (drop (length (rcalls st)) (rcalls (snd (Reconcile r request st))))
                    = [GetCall request,
                       GetStrategyMappingCall (request_Namespace request) (spec_Type (blob_Spec inst)),
                       DeleteStorageCall (GetName p) inst]"
    by (simp add: reconcileDelete_calls)
next
  fix stratMap err
  assume "GetStrategyMappingForDeploymentType r (request_Namespace request)
                      (spec_Type (blob_Spec inst)) (outside st) = (stratMap, Some err)"
  from Reconcile_on_strategy_error[OF get this refl]
  show "drop (length (rcalls st)) (rcalls (snd (Reconcile r request st)))
                    = [GetCall request,
                       GetStrategyMappingCall (request_Namespace request) (spec_Type (blob_Spec inst)),
                       StatusUpdateCall (inst\<lparr>blob_Status := (blob_Status inst)
                          \<lparr>status_Phase := PhaseFailed,
                           status_Message := ''failed to read deployment type config for deployment''\<rparr>\<rparr>)]"
    by simp
next
  fix sm
  assume a: "GetStrategyMappingForDeploymentType r (request_Namespace request)
                      (spec_Type (blob_Spec inst)) (outside st) = (Some sm, None)
                    \<and> find (\<lambda>p. SupportsStrategy p (strategy_BlobStorage sm)) (providerList r) = None"
  then have "Reconcile r request st = reconcileProviders r [] (Some sm) inst
             (st\<lparr>rcalls := rcalls st @ [GetCall request,
                    GetStrategyMappingCall (request_Namespace request) (spec_Type (blob_Spec inst))]\<rparr>)"
    using Reconcile_found[OF get, of "Some sm"] reconcileProviders_unsupported[of sm "providerList r"]
    by simp
  then show "drop (length (rcalls st)) (rcalls (snd (Reconcile r request st)))
                    = [GetCall request,
                       GetStrategyMappingCall (request_Namespace request) (spec_Type (blob_Spec inst)),
                       StatusUpdateCall (inst\<lparr>blob_Status := (blob_Status inst)
                          \<lparr>status_Phase := PhaseFailed,
                           status_Message := ''unsupported deployment strategy''\<rparr>\<rparr>)]"
    by (auto simp: UpdatePhase_def statusUpdate_def Let_def split: prod.splits option.splits)
qed

theorem Reconcile_deletion_requested_witness:
  "filter isCreateStorageCall (rcalls (snd (Reconcile
         (exampleReconciler awsStrategy (None, ''started'', None) None)
         exampleRequest (exampleStart (exampleInstance (Some 5) PhaseInProgress))))) = []
   \<and> take 3 (rcalls (snd (Reconcile
         (exampleReconciler awsStrategy (None, ''started'', None) None)
         exampleRequest (exampleStart (exampleInstance (Some 5) PhaseInProgress)))))
     = [GetCall exampleRequest, GetStrategyMappingCall ''ns'' ''managed'',
        DeleteStorageCall ''aws-s3'' (exampleInstance (Some 5) PhaseInProgress)]"
  using Reconcile_deletion_requested
    [of "exampleReconciler awsStrategy (None, ''started'', None) None"
        exampleRequest "exampleStart (exampleInstance (Some 5) PhaseInProgress)"
        "exampleInstance (Some 5) PhaseInProgress"]
  by (simp add: reconcile_example_defs)

text \<open>
  C3 as stated fails: when the output write is refused, the request stays in phase
  \<open>InProgress\<close>; no status is written, so the phase is not set to \<open>Failed\<close>.
\<close>

theorem Reconcile_secret_write_counterexample:
  "Reconcile
     (exampleReconciler awsStrategy
        (Some \<lparr>DeploymentDetails_Data = [(''bucketName'', ''b1'')]\<rparr>, ''creation successful'', None)
        (Some (GoError ''secret write refused'')))
     exampleRequest (exampleStart (exampleInstance None PhaseInProgress))
   = (Return (emptyResult, Some (Wrap ''failed to reconcile secret'' (GoError ''secret write refused''))),
      \<lparr>outside = exampleInstance None PhaseInProgress,
       rcalls = [GetCall exampleRequest, GetStrategyMappingCall ''ns'' ''managed'',
                 CreateStorageCall ''aws-s3'' (exampleInstance None PhaseInProgress),
                 ReconcileResultSecretCall (exampleInstance None PhaseInProgress)
                   [(''bucketName'', ''b1'')]]\<rparr>)
   \<and> status_Phase (blob_Status (exampleInstance None PhaseInProgress)) \<noteq> PhaseFailed"
  by (simp add: reconcile_example_defs reconcile_defs)

text \<open>
  C3, amended. When the provider has returned an instance, the output is written before
  the phase changes. If the write fails, the reconciliation returns the wrapped error
  and sends no status at all: the phase stays what it was, it is not set to \<open>Failed\<close>.
  Only after the write succeeded is the status, with phase \<open>Complete\<close>, sent to the
  store.
\<close>

theorem Reconcile_secret_write:
  assumes get: "reconciler_Get r request (outside st) = Inr inst"
    and nodel: "DeletionTimestamp (blob_ObjectMeta inst) = None"
    and strat: "GetStrategyMappingForDeploymentType r (request_Namespace request)
                  (spec_Type (blob_Spec inst)) (outside st) = (Some sm, None)"
    and bound: "find (\<lambda>p. SupportsStrategy p (strategy_BlobStorage sm)) (providerList r) = Some p"
    and create: "CreateStorage p inst (outside st) = ((Some bsi, msg, None), inst1, w1)"
    and complete: "complete = inst1\<lparr>blob_Status := (blob_Status inst1)
                     \<lparr>status_Phase := PhaseComplete, status_Message := msg,
                      status_SecretRef := spec_SecretRef (blob_Spec inst1),
                      status_Strategy := strategy_BlobStorage sm,
                      status_Provider := GetName p\<rparr>\<rparr>"
  shows "(\<forall>err w2. ReconcileResultSecret r inst1 (DeploymentDetails_Data bsi) w1 = (Some err, w2) \<longrightarrow>
            Reconcile r request st =
              (Return (emptyResult, Some (Wrap ''failed to reconcile secret'' err)),
               \<lparr>outside = w2,
                rcalls = rcalls st @
                  [GetCall request,
                   GetStrategyMappingCall (request_Namespace request) (spec_Type (blob_Spec inst)),
                   CreateStorageCall (GetName p) inst,
                   ReconcileResultSecretCall inst1 (DeploymentDetails_Data bsi)]\<rparr>))
         \<and> (\<forall>w2. ReconcileResultSecret r inst1 (DeploymentDetails_Data bsi) w1 = (None, w2) \<longrightarrow>
              drop (length (rcalls st)) (rcalls (snd (Reconcile r request st)))
                = [GetCall request,
                   GetStrategyMappingCall (request_Namespace request) (spec_Type (blob_Spec inst)),
                   CreateStorageCall (GetName p) inst,
                   ReconcileResultSecretCall inst1 (DeploymentDetails_Data bsi),
                   StatusUpdateCall complete]
              \<and> status_Phase (blob_Status complete) = PhaseComplete
              \<and> outside (snd (Reconcile r request st)) = snd (reconciler_Status_Update r complete w2))"
  using create complete unfolding Reconcile_create_run[OF get nodel strat bound]
  by (auto simp: reconcileCreate_def createStorage_def reconcileResultSecret_def statusUpdate_def Let_def
      split: prod.splits option.splits)

theorem Reconcile_secret_write_witness:
  "fst (Reconcile
     (exampleReconciler awsStrategy
        (Some \<lparr>DeploymentDetails_Data = [(''bucketName'', ''b1'')]\<rparr>, ''creation successful'', None)
        (Some (GoError ''secret write refused'')))
     exampleRequest (exampleStart (exampleInstance None PhaseFailed)))
   = Return (emptyResult, Some (Wrap ''failed to reconcile secret'' (GoError ''secret write refused'')))
   \<and> status_Phase (blob_Status (outside (snd (Reconcile
     (exampleReconciler awsStrategy
        (Some \<lparr>DeploymentDetails_Data = [(''bucketName'', ''b1'')]\<rparr>, ''creation successful'', None)
        None)
     exampleRequest (exampleStart (exampleInstance None PhaseInProgress)))))) = PhaseComplete"
  using Reconcile_secret_write
    [of "exampleReconciler awsStrategy
           (Some \<lparr>DeploymentDetails_Data = [(''bucketName'', ''b1'')]\<rparr>, ''creation successful'', None)
           (Some (GoError ''secret write refused''))"
        exampleRequest "exampleStart (exampleInstance None PhaseFailed)"
        "exampleInstance None PhaseFailed" "\<lparr>strategy_BlobStorage = ''aws''\<rparr>"
        "exampleBlobProvider
           (Some \<lparr>DeploymentDetails_Data = [(''bucketName'', ''b1'')]\<rparr>, ''creation successful'', None)"
        "\<lparr>DeploymentDetails_Data = [(''bucketName'', ''b1'')]\<rparr>" "''creation successful''"
        "exampleInstance None PhaseFailed" "exampleInstance None PhaseFailed"
        "(exampleInstance None PhaseFailed)\<lparr>blob_Status := (blob_Status (exampleInstance None PhaseFailed))
                     \<lparr>status_Phase := PhaseComplete, status_Message := ''creation successful'',
                      status_SecretRef := spec_SecretRef (blob_Spec (exampleInstance None PhaseFailed)),
                      status_Strategy := ''aws'',
                      status_Provider := ''aws-s3''\<rparr>\<rparr>"]
    Reconcile_secret_write
    [of "exampleReconciler awsStrategy
           (Some \<lparr>DeploymentDetails_Data = [(''bucketName'', ''b1'')]\<rparr>, ''creation successful'', None)
           None"
        exampleRequest "exampleStart (exampleInstance None PhaseInProgress)"
        "exampleInstance None PhaseInProgress" "\<lparr>strategy_BlobStorage = ''aws''\<rparr>"
        "exampleBlobProvider
           (Some \<lparr>DeploymentDetails_Data = [(''bucketName'', ''b1'')]\<rparr>, ''creation successful'', None)"
        "\<lparr>DeploymentDetails_Data = [(''bucketName'', ''b1'')]\<rparr>" "''creation successful''"
        "exampleInstance None PhaseInProgress" "exampleInstance None PhaseInProgress"
        "(exampleInstance None PhaseInProgress)\<lparr>blob_Status := (blob_Status (exampleInstance None PhaseInProgress))
                     \<lparr>status_Phase := PhaseComplete, status_Message := ''creation successful'',
                      status_SecretRef := spec_SecretRef (blob_Spec (exampleInstance None PhaseInProgress)),
                      status_Strategy := ''aws'',
                      status_Provider := ''aws-s3''\<rparr>\<rparr>"]
  by (simp add: reconcile_example_defs)

text \<open>
  C4 as stated fails: with the strategy read failing, a request in phase \<open>InProgress\<close>
  is stored with phase \<open>Failed\<close>.
\<close>

theorem Reconcile_strategy_error_counterexample:
  "status_Phase (blob_Status (exampleInstance None PhaseInProgress)) = PhaseInProgress
   \<and> status_Phase (blob_Status (outside (snd (Reconcile
         (exampleReconciler (None, Some (GoError ''config map not found'')) (None, ''started'', None) None)
         exampleRequest (exampleStart (exampleInstance None PhaseInProgress))))))
       = PhaseFailed"
  by (simp add: reconcile_example_defs reconcile_defs)

text \<open>
  C4, amended. When the read of the strategy configuration returns an error, the
  reconciliation sets the phase to \<open>Failed\<close> with the message "failed to read
  deployment type config for deployment" and sends that status to the store; no provider
  is called. It returns the empty result with an error: the error of the status write if
  that failed, the wrapped read error otherwise.
\<close>

theorem Reconcile_strategy_error:
  assumes "reconciler_Get r request (outside st) = Inr inst"
    and "GetStrategyMappingForDeploymentType r (request_Namespace request) (spec_Type (blob_Spec inst))
           (outside st) = (stratMap, Some err)"
    and "failed = inst\<lparr>blob_Status := (blob_Status inst)
            \<lparr>status_Phase := PhaseFailed,
             status_Message := ''failed to read deployment type config for deployment''\<rparr>\<rparr>"
  shows "drop (length (rcalls st)) (rcalls (snd (Reconcile r request st)))
           = [GetCall request,
              GetStrategyMappingCall (request_Namespace request) (spec_Type (blob_Spec inst)),
              StatusUpdateCall failed]
         \<and> status_Phase (blob_Status failed) = PhaseFailed
         \<and> outside (snd (Reconcile r request st)) = snd (reconciler_Status_Update r failed (outside st))
         \<and> fst (Reconcile r request st) =
             Return (emptyResult,
               (case fst (reconciler_Status_Update r failed (outside st)) of
                  Some updateErr \<Rightarrow> Some updateErr
                | None \<Rightarrow> Some (Wrap (''failed to read deployment type config for deployment ''
                                        @ spec_Type (blob_Spec inst)) err)))"
  using Reconcile_on_strategy_error[OF assms] assms(3) by simp

theorem Reconcile_strategy_error_witness:
  "rcalls (snd (Reconcile
         (exampleReconciler (None, Some (GoError ''config map not found'')) (None, ''started'', None) None)
         exampleRequest (exampleStart (exampleInstance None PhaseComplete))))
     = [GetCall exampleRequest, GetStrategyMappingCall ''ns'' ''managed'',
        StatusUpdateCall ((exampleInstance None PhaseComplete)
          \<lparr>blob_Status := (blob_Status (exampleInstance None PhaseComplete))
             \<lparr>status_Phase := PhaseFailed,
              status_Message := ''failed to read deployment type config for deployment''\<rparr>\<rparr>)]
   \<and> fst (Reconcile
         (exampleReconciler (None, Some (GoError ''config map not found'')) (None, ''started'', None) None)
         exampleRequest (exampleStart (exampleInstance None PhaseComplete)))
     = Return (emptyResult,
         Some (Wrap ''failed to read deployment type config for deployment managed''
                 (GoError ''config map not found'')))"
  using Reconcile_strategy_error
    [of "exampleReconciler (None, Some (GoError ''config map not found'')) (None, ''started'', None) None"
        exampleRequest "exampleStart (exampleInstance None PhaseComplete)"
        "exampleInstance None PhaseComplete" None "GoError ''config map not found''"
        "(exampleInstance None PhaseComplete)
          \<lparr>blob_Status := (blob_Status (exampleInstance None PhaseComplete))
             \<lparr>status_Phase := PhaseFailed,
              status_Message := ''failed to read deployment type config for deployment''\<rparr>\<rparr>"]
  by (simp add: reconcile_example_defs)

text \<open>
  C9. When the create of the provider that supports the strategy returns an error, the
  status sent to the store has phase \<open>Failed\<close>, the provider's message, and the empty
  secret reference in place of whatever reference was there; the error returned is the
  provider's, or that of the status write if it failed.
\<close>

theorem Reconcile_create_error:
  assumes get: "reconciler_Get r request (outside st) = Inr inst"
    and nodel: "DeletionTimestamp (blob_ObjectMeta inst) = None"
    and strat: "GetStrategyMappingForDeploymentType r (request_Namespace request)
                  (spec_Type (blob_Spec inst)) (outside st) = (Some sm, None)"
    and bound: "find (\<lambda>p. SupportsStrategy p (strategy_BlobStorage sm)) (providerList r) = Some p"
    and create: "CreateStorage p inst (outside st) = ((bsi, msg, Some err), inst1, w1)"
    and failed: "failed = inst1\<lparr>blob_Status := (blob_Status inst1)
                   \<lparr>status_SecretRef := Some emptySecretRef,
                    status_Phase := PhaseFailed, status_Message := msg\<rparr>\<rparr>"
  shows "drop (length (rcalls st)) (rcalls (snd (Reconcile r request st)))
           = [GetCall request,
              GetStrategyMappingCall (request_Namespace request) (spec_Type (blob_Spec inst)),
              CreateStorageCall (GetName p) inst,
              StatusUpdateCall failed]
         \<and> status_Phase (blob_Status failed) = PhaseFailed
         \<and> status_Message (blob_Status failed) = msg
         \<and> status_SecretRef (blob_Status failed) = Some emptySecretRef
         \<and> outside (snd (Reconcile r request st)) = snd (reconciler_Status_Update r failed w1)
         \<and> fst (Reconcile r request st) =
             Return (emptyResult,
               (case fst (reconciler_Status_Update r failed w1) of
                  Some updateErr \<Rightarrow> Some updateErr
                | None \<Rightarrow> Some err))"
  using create failed unfolding Reconcile_create_run[OF get nodel strat bound]
  by (auto simp: reconcileCreate_def createStorage_def UpdatePhase_def statusUpdate_def Let_def
      split: prod.splits option.splits)

theorem Reconcile_create_error_witness:
  "rcalls (snd (Reconcile
         (exampleReconciler awsStrategy (None, ''bucket name taken'', Some (GoError ''BucketAlreadyExists'')) None)
         exampleRequest (exampleStart (exampleInstance None PhaseComplete))))
     = [GetCall exampleRequest, GetStrategyMappingCall ''ns'' ''managed'',
        CreateStorageCall ''aws-s3'' (exampleInstance None PhaseComplete),
        StatusUpdateCall ((exampleInstance None PhaseComplete)
          \<lparr>blob_Status := (blob_Status (exampleInstance None PhaseComplete))
             \<lparr>status_SecretRef := Some emptySecretRef,
              status_Phase := PhaseFailed, status_Message := ''bucket name taken''\<rparr>\<rparr>)]
   \<and> status_SecretRef (blob_Status (exampleInstance None PhaseComplete)) = Some exampleSecretRef
   \<and> blob_Status (outside (snd (Reconcile
         (exampleReconciler awsStrategy (None, ''bucket name taken'', Some (GoError ''BucketAlreadyExists'')) None)
         exampleRequest (exampleStart (exampleInstance None PhaseComplete)))))
     = \<lparr>status_Phase = PhaseFailed, status_Message = ''bucket name taken'',
        status_SecretRef = Some emptySecretRef, status_Strategy = ''aws'',
        status_Provider = ''aws-s3''\<rparr>"
  using Reconcile_create_error
    [of "exampleReconciler awsStrategy (None, ''bucket name taken'', Some (GoError ''BucketAlreadyExists'')) None"
        exampleRequest "exampleStart (exampleInstance None PhaseComplete)"
        "exampleInstance None PhaseComplete" "\<lparr>strategy_BlobStorage = ''aws''\<rparr>"
        "exampleBlobProvider (None, ''bucket name taken'', Some (GoError ''BucketAlreadyExists''))"
        None "''bucket name taken''" "GoError ''BucketAlreadyExists''"
        "exampleInstance None PhaseComplete" "exampleInstance None PhaseComplete"
        "(exampleInstance None PhaseComplete)
          \<lparr>blob_Status := (blob_Status (exampleInstance None PhaseComplete))
             \<lparr>status_SecretRef := Some emptySecretRef,
              status_Phase := PhaseFailed, status_Message := ''bucket name taken''\<rparr>\<rparr>"]
  by (simp add: reconcile_example_defs)

end
